theory Spec2Isabelle
  imports Main
begin

chapter \<open>The model\<close>

section \<open>Function descriptor registry (package temple, FnMap)\<close>

text \<open>
  The Go functions that the built-in registry binds to template names. The registry stores
  them as opaque \<^verbatim>\<open>interface{}\<close> values; a constructor per bound function keeps them
  apart.
\<close>

datatype callable =
    F_add | F_b64dec | F_b64enc | F_cmd | F_decrypt | F_time_ParseDuration | F_encrypt
  | F_env | F_fns | F_fromgob | F_fromjson | F_fromyaml | F_gunzip | F_gzip | F_hexdec
  | F_hexenc | F_http | F_is | F_strings_Join | F_strings_ToLower | F_math
  | F_filepath_Base | F_filepath_Ext | F_Random | F_rawfile | F_strings_Split
  | F_stringify | F_textfile | F_timestamp | F_togob | F_tojson | F_toyaml
  | F_strings_TrimPrefix | F_strings_TrimSuffix | F_strings_ToUpper | F_userinput
  | F_writefile

text \<open>
  \<^verbatim>\<open>type fn struct { _fn interface{}; Description, Signature string; Unsafe bool }\<close>
  and \<^verbatim>\<open>type templeFnMap map[string]fn\<close>.
\<close>

record fn =
  fn_callable :: callable
  Description :: string
  Signature :: string
  Unsafe :: bool

type_synonym templeFnMap = "string \<rightharpoonup> fn"

text \<open>
  \<^verbatim>\<open>reflect.TypeOf(funct).String()\<close> is the Go runtime's rendering of a function type; it is
  taken as the parameter \<open>TypeOf\<close> wherever a descriptor is built.
\<close>

definition Fn :: "(callable \<Rightarrow> string) \<Rightarrow> templeFnMap \<Rightarrow> string \<Rightarrow> string \<Rightarrow> callable \<Rightarrow> bool \<Rightarrow> templeFnMap" where
  "Fn TypeOf t name description funct unsafe =
     t(name \<mapsto> \<lparr>fn_callable = funct, Description = description,
                 Signature = TypeOf funct, Unsafe = unsafe\<rparr>)"

text \<open>
  \<^verbatim>\<open>BuildFuncMap\<close> ranges over the registry and copies an entry when
  \<^verbatim>\<open>!info.Unsafe || addUnsafeFuncs\<close>. Keys of a Go map are unique, so the resulting map
  does not depend on the iteration order.
\<close>

definition BuildFuncMap :: "templeFnMap \<Rightarrow> bool \<Rightarrow> (string \<rightharpoonup> callable)" where
  "BuildFuncMap t addUnsafeFuncs =
     (\<lambda>name. case t name of
        None \<Rightarrow> None
      | Some info \<Rightarrow>
          if \<not> Unsafe info \<or> addUnsafeFuncs then Some (fn_callable info) else None)"

definition entry :: "(callable \<Rightarrow> string) \<Rightarrow> callable \<Rightarrow> string \<Rightarrow> bool \<Rightarrow> fn" where
  "entry TypeOf funct description unsafe =
     \<lparr>fn_callable = funct, Description = description,
      Signature = TypeOf funct, Unsafe = unsafe\<rparr>"

definition FnMap_entries :: "(callable \<Rightarrow> string) \<Rightarrow> (string \<times> fn) list" where
  "FnMap_entries TypeOf =
   [(''add'', entry TypeOf F_add
       ''add value $2 to map or slice $1, map needs $3 for value's key in map'' False),
    (''b64dec'', entry TypeOf F_b64dec ''base64 decode'' False),
    (''b64enc'', entry TypeOf F_b64enc ''base64 encode'' False),
    (''cmd'', entry TypeOf F_cmd ''execute a command on local host'' True),
    (''decrypt'', entry TypeOf F_decrypt
       ''decrypt data with AES_GCM: $1 ctxt, $2 base64 key, $3 AAD'' False),
    (''duration'', entry TypeOf F_time_ParseDuration ''time.ParseDuration'' False),
    (''encrypt'', entry TypeOf F_encrypt
       ''encrypt data with AES_GCM: $1 ptxt, $2 base64 key, $3 AAD'' False),
    (''env'', entry TypeOf F_env
       ''get environment vars, optionally use a placeholder value $2'' True),
    (''fns'', entry TypeOf F_fns ''get list of available functions'' False),
    (''fromgob'', entry TypeOf F_fromgob ''gob decode'' False),
    (''fromjson'', entry TypeOf F_fromjson ''json decode'' False),
    (''fromyaml'', entry TypeOf F_fromyaml ''yaml decode'' False),
    (''gunzip'', entry TypeOf F_gunzip ''extract GZIP compressed data'' False),
    (''gzip'', entry TypeOf F_gzip ''compress with GZIP'' False),
    (''hexdec'', entry TypeOf F_hexdec ''hex decode'' False),
    (''hexenc'', entry TypeOf F_hexenc ''hex encode'' False),
    (''http'', entry TypeOf F_http ''HEAD|GET|POST, url, body(raw), headers'' True),
    (''is'', entry TypeOf F_is
       ''check if $1 is all |upper(case), |lower(case), |int, |float, |float32, |bool or ==$2''
       False),
    (''join'', entry TypeOf F_strings_Join ''strings.Join'' False),
    (''lower'', entry TypeOf F_strings_ToLower ''strings.ToLower'' False),
    (''math'', entry TypeOf F_math ''math operations (+, -, *, /, %, max, min)'' False),
    (''pathbase'', entry TypeOf F_filepath_Base ''filepath.Base'' False),
    (''pathext'', entry TypeOf F_filepath_Ext ''filepath.Ext'' False),
    (''random'', entry TypeOf F_Random
       ''generate a $1 sized []byte filled with bytes from crypto.Rand'' False),
    (''rawfile'', entry TypeOf F_rawfile ''read raw bytes from a file'' True),
    (''split'', entry TypeOf F_strings_Split ''strings.Split'' False),
    (''string'', entry TypeOf F_stringify
       ''convert int/bool to string, retype []byte to string (handle with care)'' False),
    (''textfile'', entry TypeOf F_textfile ''read a file as a string'' True),
    (''timestamp'', entry TypeOf F_timestamp ''$1 for timezone (default UTC)'' False),
    (''togob'', entry TypeOf F_togob ''gob encode'' False),
    (''tojson'', entry TypeOf F_tojson ''json encode'' False),
    (''toyaml'', entry TypeOf F_toyaml ''yaml encode'' False),
    (''trimprefix'', entry TypeOf F_strings_TrimPrefix ''strings.TrimPrefix'' False),
    (''trimsuffix'', entry TypeOf F_strings_TrimSuffix ''strings.TrimSuffix'' False),
    (''upper'', entry TypeOf F_strings_ToUpper ''strings.ToUpper'' False),
    (''userinput'', entry TypeOf F_userinput
       ''get interactive user input (needs a terminal), if $2 bool is provided and true, term.ReadPassword is used. $1 is used as hint''
       True),
    (''writefile'', entry TypeOf F_writefile
       ''store data to a file (append if it already exists)'' True)]"

definition FnMap :: "(callable \<Rightarrow> string) \<Rightarrow> templeFnMap" where
  "FnMap TypeOf = map_of (FnMap_entries TypeOf)"

section \<open>Helper functions (funcs.go)\<close>

subsection \<open>Strings, errors and the library\<close>

text \<open>
  A Go string is a sequence of bytes; \<open>string\<close> (a list of 8-bit characters) models both
  \<^verbatim>\<open>string\<close> and \<^verbatim>\<open>[]byte\<close>.
\<close>

definition HasPrefix :: "string \<Rightarrow> string \<Rightarrow> bool" where
  "HasPrefix s prefix = (length s \<ge> length prefix \<and> take (length prefix) s = prefix)"

definition TrimPrefix :: "string \<Rightarrow> string \<Rightarrow> string" where
  "TrimPrefix s prefix = (if HasPrefix s prefix then drop (length prefix) s else s)"

text \<open>The line feed, the carriage return, the tab and the double quote.\<close>

definition LF :: char where
  "LF = CHR 0x0A"

definition CR :: char where
  "CR = CHR 0x0D"

definition TAB :: char where
  "TAB = CHR 0x09"

definition DQ :: char where
  "DQ = CHR 0x22"

text \<open>
  Errors are values. \<open>Errorf\<close> is an error made by \<^verbatim>\<open>fmt.Errorf\<close> in this package, with
  its formatted text; the other constructors are the library errors that the modelled code
  can return, named after their Go values (\<open>strconv_ErrSyntax\<close> is a \<^verbatim>\<open>*strconv.NumError\<close>
  with \<^verbatim>\<open>strconv.ErrSyntax\<close>, given by the function and the input). \<open>ReadError\<close>, \<open>TemplateError\<close>, \<open>FileError\<close> and
  \<open>LibError\<close> carry the text of an error raised inside the library (by a reader, by the
  template engine, by the file system, by anything else).
\<close>

datatype error =
    Errorf string
  | hex_InvalidByteError char
  | hex_ErrLength
  | base64_CorruptInputError nat
  | io_ErrUnexpectedEOF
  | aes_KeySizeError nat
  | strconv_ErrSyntax string string
  | ReadError string
  | TemplateError string
  | FileError string
  | LibError string
  | Panic string

text \<open>
  A helper takes its data as \<^verbatim>\<open>interface{}\<close> and switches on the dynamic type. \<open>Reader\<close>
  is an \<^verbatim>\<open>io.Reader\<close>, given by what reading it to the end delivers: the bytes, and the
  error that ended the stream (\<open>None\<close> for \<^verbatim>\<open>io.EOF\<close>). \<open>Other\<close> is a value of any other
  type, given by the name \<^verbatim>\<open>%T\<close> prints.
\<close>

type_synonym reader = "string \<times> string option"

datatype input = String string | Bytes string | Reader reader | Other string

text \<open>
  What the helpers ask of the Go library and do not implement themselves: the runes a
  \<^verbatim>\<open>range\<close> over a string yields (UTF-8 decoding), the Unicode classes, whether
  \<^verbatim>\<open>strconv.ParseFloat\<close> with the given bit size returns an error, and the streaming
  decoders \<^verbatim>\<open>hex.NewDecoder\<close> and \<^verbatim>\<open>base64.NewDecoder(base64.RawStdEncoding, _)\<close> copied
  to the end of the reader.
\<close>

record golib =
  range_runes :: "string \<Rightarrow> nat list"
  IsLetter :: "nat \<Rightarrow> bool"
  IsLower :: "nat \<Rightarrow> bool"
  IsUpper :: "nat \<Rightarrow> bool"
  ParseFloat_err :: "string \<Rightarrow> nat \<Rightarrow> bool"
  hex_NewDecoder :: "reader \<Rightarrow> error + string"
  base64_NewDecoder :: "reader \<Rightarrow> error + string"

text \<open>
  \<^verbatim>\<open>strconv.Atoi\<close>: an optional sign, then one or more decimal digits, the value within
  the 64-bit \<^verbatim>\<open>int\<close>; anything else is an error.
\<close>

definition is_digit :: "char \<Rightarrow> bool" where
  "is_digit c = (48 \<le> (of_char c :: nat) \<and> (of_char c :: nat) \<le> 57)"

definition digit_val :: "char \<Rightarrow> int" where
  "digit_val c = int (of_char c) - 48"

definition Atoi :: "string \<Rightarrow> int option" where
  "Atoi s =
     (let neg = (s \<noteq> [] \<and> hd s = CHR ''-'');
          ds = (if s \<noteq> [] \<and> (hd s = CHR ''-'' \<or> hd s = CHR ''+'') then tl s else s);
          v = foldl (\<lambda>a d. 10 * a + digit_val d) 0 ds
      in if ds = [] \<or> \<not> list_all is_digit ds then None
         else if neg then (if v \<le> 2 ^ 63 then Some (- v) else None)
         else (if v \<le> 2 ^ 63 - 1 then Some v else None))"

subsection \<open>The predicate helper \<^verbatim>\<open>is\<close>\<close>

text \<open>The loops of the \<^verbatim>\<open>upper\<close> and \<^verbatim>\<open>lower\<close> cases return false at the first offending rune.\<close>

fun no_lower :: "golib \<Rightarrow> nat list \<Rightarrow> bool" where
  "no_lower L [] = True"
| "no_lower L (r # rs) = (if IsLetter L r \<and> IsLower L r then False else no_lower L rs)"

fun no_upper :: "golib \<Rightarrow> nat list \<Rightarrow> bool" where
  "no_upper L [] = True"
| "no_upper L (r # rs) = (if IsLetter L r \<and> IsUpper L r then False else no_upper L rs)"

definition "is" :: "golib \<Rightarrow> string \<Rightarrow> string \<Rightarrow> bool" where
  "is L s what =
     (if HasPrefix what ''|'' then
        (let x = TrimPrefix what ''|'' in
         if x = ''u'' \<or> x = ''upper'' then no_lower L (range_runes L s)
         else if x = ''l'' \<or> x = ''lower'' then no_upper L (range_runes L s)
         else if x = ''i'' \<or> x = ''int'' then Atoi s \<noteq> None
         else if x = ''f'' \<or> x = ''float'' then \<not> ParseFloat_err L s 64
         else if x = ''f32'' \<or> x = ''float32'' then \<not> ParseFloat_err L s 32
         else if x = ''b'' \<or> x = ''bool'' then \<not> (s \<noteq> ''true'' \<and> s \<noteq> ''false'')
         else s = what)
      else s = what)"

text \<open>
  A library to run the definitions on: every byte is a rune, the letters are the ASCII
  letters, only integers parse as floating-point numbers, and there are no stream decoders.
\<close>

definition ascii_lib :: golib where
  "ascii_lib = \<lparr>range_runes = map of_char,
                IsLetter = (\<lambda>r. (65 \<le> r \<and> r \<le> 90) \<or> (97 \<le> r \<and> r \<le> 122)),
                IsLower = (\<lambda>r. 97 \<le> r \<and> r \<le> 122),
                IsUpper = (\<lambda>r. 65 \<le> r \<and> r \<le> 90),
                ParseFloat_err = (\<lambda>s bits. Atoi s = None),
                hex_NewDecoder = (\<lambda>r. Inl (LibError ''no stream decoder'')),
                base64_NewDecoder = (\<lambda>r. Inl (LibError ''no stream decoder''))\<rparr>"

subsection \<open>Hexadecimal encoding (encoding/hex)\<close>

definition hextable :: string where
  "hextable = ''0123456789abcdef''"

definition EncodeToString :: "string \<Rightarrow> string" where
  "EncodeToString src =
     concat (map (\<lambda>c. [hextable ! (of_char c div 16), hextable ! (of_char c mod 16)]) src)"

definition fromHexChar :: "char \<Rightarrow> nat option" where
  "fromHexChar c =
     (let v = (of_char c :: nat) in
      if 48 \<le> v \<and> v \<le> 57 then Some (v - 48)
      else if 97 \<le> v \<and> v \<le> 102 then Some (v - 97 + 10)
      else if 65 \<le> v \<and> v \<le> 70 then Some (v - 65 + 10)
      else None)"

text \<open>
  \<^verbatim>\<open>hex.Decode(dst, src)\<close> decodes pair by pair and returns the number of bytes written and
  an error; here it returns the bytes written (their count is \<open>n\<close>) and the error. An
  invalid byte is reported before an odd length.
\<close>

fun hex_Decode_loop :: "string \<Rightarrow> string \<Rightarrow> string \<times> error option" where
  "hex_Decode_loop [] dst = (dst, None)"
| "hex_Decode_loop [p] dst =
     (if fromHexChar p = None then (dst, Some (hex_InvalidByteError p))
      else (dst, Some hex_ErrLength))"
| "hex_Decode_loop (p # q # src) dst =
     (case fromHexChar p of
        None \<Rightarrow> (dst, Some (hex_InvalidByteError p))
      | Some a \<Rightarrow>
          (case fromHexChar q of
             None \<Rightarrow> (dst, Some (hex_InvalidByteError q))
           | Some b \<Rightarrow> hex_Decode_loop src (dst @ [char_of (a * 16 + b)])))"

definition hex_Decode :: "string \<Rightarrow> string \<times> error option" where
  "hex_Decode src = hex_Decode_loop src []"

definition hex_DecodeString :: "string \<Rightarrow> string \<times> error option" where
  "hex_DecodeString s = hex_Decode s"

definition invalid_argument :: "string \<Rightarrow> string \<Rightarrow> error" where
  "invalid_argument ty supported =
     Errorf (''invalid argument '' @ ty @ '', supported types: '' @ supported)"

definition hexenc :: "input \<Rightarrow> error + string" where
  "hexenc in' =
     (case in' of
        String t \<Rightarrow> Inr (EncodeToString t)
      | Bytes t \<Rightarrow> Inr (EncodeToString t)
      | Reader r \<Rightarrow>
          (case snd r of
             Some e \<Rightarrow> Inl (ReadError e)
           | None \<Rightarrow> Inr (EncodeToString (fst r)))
      | Other ty \<Rightarrow> Inl (invalid_argument ty ''string or []byte''))"

text \<open>
  In the string case of \<^verbatim>\<open>hexdec\<close> the count \<^verbatim>\<open>n\<close> is declared and never assigned, so
  \<^verbatim>\<open>out = b[:n]\<close> slices at zero. In the byte case \<^verbatim>\<open>n\<close> is the count that
  \<^verbatim>\<open>hex.Decode\<close> returns, and \<^verbatim>\<open>b\<close> is a buffer of \<^verbatim>\<open>hex.DecodedLen(len(t))\<close> bytes.
\<close>

definition hexdec :: "golib \<Rightarrow> input \<Rightarrow> error + string" where
  "hexdec L in' =
     (let n = (0::nat) in
      case in' of
        String t \<Rightarrow>
          (case hex_DecodeString t of
             (b, Some err) \<Rightarrow> Inl err
           | (b, None) \<Rightarrow> Inr (take n b))
      | Bytes t \<Rightarrow>
          (case hex_Decode t of
             (w, Some err) \<Rightarrow> Inl err
           | (w, None) \<Rightarrow>
               (let b = w @ replicate (length t div 2 - length w) (CHR 0x00);
                    n = length w
                in Inr (take n b)))
      | Reader r \<Rightarrow> hex_NewDecoder L r
      | Other ty \<Rightarrow> Inl (invalid_argument ty ''string or []byte''))"

subsection \<open>Base64 decoding (encoding/base64, StdEncoding)\<close>

text \<open>The standard alphabet: A-Z, a-z, 0-9, plus and slash; the padding character is the equals sign.\<close>

definition decodeMap :: "char \<Rightarrow> nat option" where
  "decodeMap c =
     (let v = (of_char c :: nat) in
      if 65 \<le> v \<and> v \<le> 90 then Some (v - 65)
      else if 97 \<le> v \<and> v \<le> 122 then Some (v - 97 + 26)
      else if 48 \<le> v \<and> v \<le> 57 then Some (v - 48 + 52)
      else if v = 43 then Some 62
      else if v = 47 then Some 63
      else None)"

definition is_newline :: "char \<Rightarrow> bool" where
  "is_newline c = (c = LF \<or> c = CR)"

text \<open>
  The bytes of a quantum: four 6-bit values make three bytes; with padding, three values
  make two bytes and two values make one byte. Bits left over are not checked (the encoding
  is not strict).
\<close>

definition quantum_bytes :: "nat list \<Rightarrow> string" where
  "quantum_bytes dbuf =
     (let d = dbuf @ replicate (4 - length dbuf) 0;
          val = d ! 0 * 262144 + d ! 1 * 4096 + d ! 2 * 64 + d ! 3
      in take (length dbuf - 1)
           [char_of (val div 65536), char_of (val div 256 mod 256), char_of (val mod 256)])"

text \<open>
  What follows a padding character at input position \<open>si - 1\<close> when \<open>j\<close> values of the quantum
  were read: with two values a second padding character is expected; after the padding only
  newlines may follow. The result is the output with the error, if any.
\<close>

definition skip_newlines :: "string \<Rightarrow> nat" where
  "skip_newlines src = length (takeWhile is_newline src)"

definition after_padding :: "string \<Rightarrow> nat \<Rightarrow> nat list \<Rightarrow> string \<Rightarrow> string \<times> error option" where
  "after_padding src si dbuf out =
     (let k = skip_newlines src; rest = drop k src in
      (out @ quantum_bytes dbuf,
       if rest \<noteq> [] then Some (base64_CorruptInputError (si + k)) else None))"

definition padding :: "string \<Rightarrow> nat \<Rightarrow> nat list \<Rightarrow> string \<Rightarrow> string \<times> error option" where
  "padding src si dbuf out =
     (let j = length dbuf in
      if j = 0 \<or> j = 1 then (out, Some (base64_CorruptInputError (si - 1)))
      else if j = 2 then
        (let k = skip_newlines src; rest = drop k src in
         if rest = [] then (out, Some (base64_CorruptInputError (si + k)))
         else if hd rest \<noteq> CHR ''='' then (out, Some (base64_CorruptInputError (si + k - 1)))
         else after_padding (tl rest) (si + k + 1) dbuf out)
      else after_padding src si dbuf out)"

text \<open>
  \<^verbatim>\<open>Decode\<close> reads quantum after quantum; \<open>base64_Decode_loop src si dbuf out\<close> is at input
  position \<open>si\<close> with the rest \<open>src\<close> of the input, the values \<open>dbuf\<close> of the current quantum
  and the bytes \<open>out\<close> written so far. Newlines and carriage returns are skipped. It returns
  the bytes written and the error.
\<close>

fun base64_Decode_loop :: "string \<Rightarrow> nat \<Rightarrow> nat list \<Rightarrow> string \<Rightarrow> string \<times> error option" where
  "base64_Decode_loop [] si dbuf out =
     (if dbuf = [] then (out, None)
      else (out, Some (base64_CorruptInputError (si - length dbuf))))"
| "base64_Decode_loop (c # src) si dbuf out =
     (case decodeMap c of
        Some v \<Rightarrow>
          (if length dbuf = 3 then base64_Decode_loop src (si + 1) [] (out @ quantum_bytes (dbuf @ [v]))
           else base64_Decode_loop src (si + 1) (dbuf @ [v]) out)
      | None \<Rightarrow>
          if is_newline c then base64_Decode_loop src (si + 1) dbuf out
          else if c \<noteq> CHR ''='' then (out, Some (base64_CorruptInputError si))
          else padding src (si + 1) dbuf out)"

definition base64_Decode :: "string \<Rightarrow> string \<times> error option" where
  "base64_Decode src = base64_Decode_loop src 0 [] []"

definition base64_DecodeString :: "string \<Rightarrow> string \<times> error option" where
  "base64_DecodeString s = base64_Decode s"

text \<open>
  \<^verbatim>\<open>b64dec\<close>: for a string and for bytes, a buffer of \<^verbatim>\<open>DecodedLen(len(t))\<close> bytes is
  decoded into and cut at the count that \<^verbatim>\<open>Decode\<close> returns.
\<close>

definition b64dec :: "golib \<Rightarrow> input \<Rightarrow> error + string" where
  "b64dec L in' =
     (case in' of
        String t \<Rightarrow>
          (case base64_Decode t of
             (w, Some err) \<Rightarrow> Inl err
           | (w, None) \<Rightarrow>
               (let b = w @ replicate (length t div 4 * 3 - length w) (CHR 0x00); n = length w
                in Inr (take n b)))
      | Bytes t \<Rightarrow>
          (case base64_Decode t of
             (w, Some err) \<Rightarrow> Inl err
           | (w, None) \<Rightarrow>
               (let b = w @ replicate (length t div 4 * 3 - length w) (CHR 0x00); n = length w
                in Inr (take n b)))
      | Reader r \<Rightarrow> base64_NewDecoder L r
      | Other ty \<Rightarrow> Inl (invalid_argument ty ''io.Reader, string or []byte''))"

subsection \<open>AES-GCM encryption and decryption\<close>

text \<open>
  The cipher is used as a black box: \<open>Seal key nonce plaintext additionalData\<close> is the
  sealed message (ciphertext and tag), and \<open>Open key nonce ciphertext additionalData\<close> is
  the plaintext, or \<open>None\<close> when authentication fails.
\<close>

record aes_gcm =
  Seal :: "string \<Rightarrow> string \<Rightarrow> string \<Rightarrow> string \<Rightarrow> string"
  Open :: "string \<Rightarrow> string \<Rightarrow> string \<Rightarrow> string \<Rightarrow> string option"

definition NonceSize :: nat where
  "NonceSize = 12"

text \<open>\<^verbatim>\<open>aes.NewCipher\<close> accepts keys of 16, 24 and 32 bytes.\<close>

definition NewCipher :: "string \<Rightarrow> error + string" where
  "NewCipher key =
     (if length key = 16 \<or> length key = 24 \<or> length key = 32 then Inr key
      else Inl (aes_KeySizeError (length key)))"

text \<open>
  \<^verbatim>\<open>Random(size)\<close> fills a slice from \<^verbatim>\<open>crypto/rand\<close> and panics when the source fails;
  \<open>rnd\<close> is what the source delivers.
\<close>

definition Random :: "string \<Rightarrow> nat \<Rightarrow> error + string" where
  "Random rnd sz =
     (if length rnd < sz then Inl (Panic ''unexpected EOF'')
      else Inr (take sz rnd))"

definition consumeReader :: "reader \<Rightarrow> error + string" where
  "consumeReader r = (case snd r of Some e \<Rightarrow> Inl (ReadError e) | None \<Rightarrow> Inr (fst r))"

definition encrypt :: "aes_gcm \<Rightarrow> string \<Rightarrow> input \<Rightarrow> string \<Rightarrow> string \<Rightarrow> error + string" where
  "encrypt A rnd in' b64key aad =
     (case (case in' of
              String t \<Rightarrow> Inr t
            | Bytes t \<Rightarrow> Inr t
            | Reader r \<Rightarrow> consumeReader r
            | Other ty \<Rightarrow> Inl (invalid_argument ty ''string or []byte'')) of
        Inl err \<Rightarrow> Inl err
      | Inr ptxt \<Rightarrow>
          (case base64_DecodeString b64key of
             (key, Some err) \<Rightarrow> Inl err
           | (key, None) \<Rightarrow>
               (case NewCipher key of
                  Inl err \<Rightarrow> Inl err
                | Inr cb \<Rightarrow>
                    (case Random rnd NonceSize of
                       Inl err \<Rightarrow> Inl err
                     | Inr iv \<Rightarrow>
                         (let ctxt = Seal A cb iv ptxt aad in Inr (ctxt @ iv))))))"

text \<open>
  \<^verbatim>\<open>decrypt\<close> takes a string as base64 text and decodes it first; its type switch has no
  default case, so any other value leaves the ciphertext empty.
\<close>

definition decrypt :: "golib \<Rightarrow> aes_gcm \<Rightarrow> input \<Rightarrow> string \<Rightarrow> string \<Rightarrow> error + string" where
  "decrypt L A in' b64key aad =
     (case (case in' of
              String t \<Rightarrow> b64dec L (String t)
            | Bytes t \<Rightarrow> Inr t
            | Reader r \<Rightarrow> consumeReader r
            | Other ty \<Rightarrow> Inr []) of
        Inl err \<Rightarrow> Inl err
      | Inr ctxt \<Rightarrow>
          (case base64_DecodeString b64key of
             (key, Some err) \<Rightarrow> Inl err
           | (key, None) \<Rightarrow>
               (case NewCipher key of
                  Inl err \<Rightarrow> Inl err
                | Inr cb \<Rightarrow>
                    (let ns = NonceSize; l = length ctxt in
                     if l < ns then Inl io_ErrUnexpectedEOF
                     else (case Open A cb (drop (l - ns) ctxt) (take (l - ns) ctxt) aad of
                             None \<Rightarrow> Inl (LibError ''cipher: message authentication failed'')
                           | Some out \<Rightarrow> Inr out)))))"

text \<open>
  A stand-in for the cipher, to run the definitions on: the message is left as it is and
  the tag is sixteen zero bytes.
\<close>

definition toy_gcm :: aes_gcm where
  "toy_gcm = \<lparr>Seal = (\<lambda>key nonce ptxt aad. ptxt @ replicate 16 (CHR 0x00)),
              Open = (\<lambda>key nonce ctxt aad.
                        if length ctxt \<ge> 16 \<and> drop (length ctxt - 16) ctxt = replicate 16 (CHR 0x00)
                        then Some (take (length ctxt - 16) ctxt) else None)\<rparr>"

definition key16 :: string where
  "key16 = ''AAAAAAAAAAAAAAAAAAAAAA==''"

text \<open>
  The property asked of the cipher: with a key of an accepted length and a nonce of the
  nonce size, opening a sealed message with the same nonce and additional data gives the
  plaintext back.
\<close>

definition aead_correct :: "aes_gcm \<Rightarrow> bool" where
  "aead_correct A =
     (\<forall>key nonce ptxt aad.
        (length key = 16 \<or> length key = 24 \<or> length key = 32) \<and> length nonce = NonceSize
        \<longrightarrow> Open A key nonce (Seal A key nonce ptxt aad) aad = Some ptxt)"

subsection \<open>Decompression (\<^verbatim>\<open>_gunzip\<close>)\<close>

text \<open>
  \<^verbatim>\<open>_gunzip\<close> takes a string as base64 text and decodes it with \<^verbatim>\<open>b64dec\<close> first. The
  decompression itself (\<^verbatim>\<open>gzip.NewReader\<close>, \<^verbatim>\<open>io.Copy\<close> and \<^verbatim>\<open>Close\<close>) is the library's:
  \<open>Z\<close> gives, for a reader, the error or the decompressed bytes.
\<close>

definition gunzip :: "(reader \<Rightarrow> error + string) \<Rightarrow> golib \<Rightarrow> input \<Rightarrow> error + string" where
  "gunzip Z L in' =
     (case in' of
        String t \<Rightarrow>
          (case b64dec L (String t) of
             Inl err \<Rightarrow> Inl err
           | Inr b \<Rightarrow> Z (b, None))
      | Bytes t \<Rightarrow> Z (t, None)
      | Reader r \<Rightarrow> Z r
      | Other ty \<Rightarrow> Inl (invalid_argument ty ''io.Reader or []byte''))"

section \<open>Template assembly (BuildTemplate, fload)\<close>

subsection \<open>Paths and files\<close>

text \<open>
  \<^verbatim>\<open>path.Base\<close>: the last element of a slash-separated path, after trailing slashes are
  removed; \<^verbatim>\<open>"."\<close> for the empty path and \<^verbatim>\<open>"/"\<close> for a path of slashes only.
\<close>

definition Base :: "string \<Rightarrow> string" where
  "Base p =
     (if p = [] then ''.''
      else (let p1 = rev (dropWhile (\<lambda>c. c = CHR ''/'') (rev p));
                p2 = rev (takeWhile (\<lambda>c. c \<noteq> CHR ''/'') (rev p1))
            in if p2 = [] then ''/'' else p2))"

text \<open>
  The file system is a parameter: \<^verbatim>\<open>os.Open(p)\<close> fails with an error text, or gives a file
  that is read as a \<open>reader\<close>.
\<close>

type_synonym filesystem = "string \<Rightarrow> string + reader"

definition dropCR :: "string \<Rightarrow> string" where
  "dropCR data = (if data \<noteq> [] \<and> last data = CR then butlast data else data)"

definition MaxScanTokenSize :: nat where
  "MaxScanTokenSize = 64 * 1024"

text \<open>
  \<^verbatim>\<open>bufio.Scanner\<close> with the default split function \<^verbatim>\<open>ScanLines\<close>: the tokens are the lines
  without their end-of-line marker (a newline, with an optional carriage return before it); a
  last line without a newline is a token when it is not empty; a line that does not fit the
  scanner's buffer of \<open>MaxScanTokenSize\<close> bytes stops the scan with \<^verbatim>\<open>bufio.ErrTooLong\<close>.
  \<open>Scan_all data cur\<close> gives the tokens and the scanner's error, \<open>cur\<close> being the bytes of
  the current line read so far.
\<close>

fun Scan_all :: "string \<Rightarrow> string \<Rightarrow> string list \<times> error option" where
  "Scan_all [] cur = (if cur = [] then ([], None) else ([dropCR cur], None))"
| "Scan_all (c # cs) cur =
     (if c = LF then (case Scan_all cs [] of (ls, e) \<Rightarrow> (dropCR cur # ls, e))
      else if length cur + 1 \<ge> MaxScanTokenSize then ([], Some (LibError ''bufio.Scanner: token too long''))
      else Scan_all cs (cur @ [c]))"

text \<open>
  The loop of \<^verbatim>\<open>fload\<close>. The counter \<^verbatim>\<open>i\<close> is set to 0 before the loop and the loop never
  changes it.
\<close>

fun fload_loop :: "nat \<Rightarrow> string list \<Rightarrow> string \<Rightarrow> string" where
  "fload_loop i [] buf = buf"
| "fload_loop i (t # ts) buf =
     (if i = 0 \<and> HasPrefix t ''#!'' then fload_loop i ts buf
      else fload_loop i ts (buf @ t @ [LF]))"

text \<open>\<^verbatim>\<open>fload\<close> returns the buffer and \<^verbatim>\<open>scanner.Err()\<close>; after a failed open, the empty string and the error.\<close>

definition fload :: "filesystem \<Rightarrow> string \<Rightarrow> string \<times> error option" where
  "fload fs p =
     (case fs p of
        Inl err \<Rightarrow> ([], Some (FileError err))
      | Inr f \<Rightarrow>
          (case Scan_all (fst f) [] of
             (lines, serr) \<Rightarrow>
               (fload_loop 0 lines [],
                case serr of
                  Some e \<Rightarrow> Some e
                | None \<Rightarrow> map_option ReadError (snd f))))"

definition shebang_fs :: filesystem where
  "shebang_fs p = Inr (''one'' @ [LF] @ ''#!two'' @ [LF] @ ''three'' @ [LF], None)"

subsection \<open>The template engine (text/template)\<close>

text \<open>
  The template engine is used through its interface. A template handle has a name, its own
  parse tree (\<^verbatim>\<open>nil\<close> until something is parsed into it) and the state it shares with the
  handles associated to it: the function map and the table of named templates. The code
  keeps one handle at a time in the variable \<^verbatim>\<open>tpl\<close>, so the shared state travels with
  that handle.
\<close>

record 'tree Template =
  name :: string
  Tree :: "'tree option"
  funcs :: "string \<rightharpoonup> callable"
  tmpl :: "string \<rightharpoonup> 'tree"

text \<open>
  Parsing and execution are the engine's: \<open>parse_text\<close> takes the function map, the name of
  the template and its text and gives an error text or the set of trees the text defines
  (the text itself under the given name, and one per \<^verbatim>\<open>{{define}}\<close> block);
  \<open>IsEmptyTree\<close> tells a tree without content; \<open>exec\<close> runs a tree against the data, with the
  table of named templates and the function map, and gives an error text or the output.
\<close>

datatype json = JNull | JBool bool | JNumber string | JString string
  | JArray "json list" | JObject "(string \<times> json) list"

record 'tree engine =
  parse_text :: "(string \<rightharpoonup> callable) \<Rightarrow> string \<Rightarrow> string \<Rightarrow> string + (string \<times> 'tree) list"
  IsEmptyTree :: "'tree \<Rightarrow> bool"
  exec :: "'tree \<Rightarrow> (string \<rightharpoonup> 'tree) \<Rightarrow> (string \<rightharpoonup> callable) \<Rightarrow> json \<Rightarrow> string + string"

text \<open>\<^verbatim>\<open>template.New(name)\<close>, \<^verbatim>\<open>t.Funcs(m)\<close> and \<^verbatim>\<open>t.New(name)\<close>, which shares the state of \<^verbatim>\<open>t\<close>.\<close>

definition New :: "string \<Rightarrow> 'tree Template" where
  "New n = \<lparr>name = n, Tree = None, funcs = Map.empty, tmpl = Map.empty\<rparr>"

definition Funcs :: "'tree Template \<Rightarrow> (string \<rightharpoonup> callable) \<Rightarrow> 'tree Template" where
  "Funcs t m = t\<lparr>funcs := funcs t ++ m\<rparr>"

definition New_assoc :: "'tree Template \<Rightarrow> string \<Rightarrow> 'tree Template" where
  "New_assoc t n = \<lparr>name = n, Tree = None, funcs = funcs t, tmpl = tmpl t\<rparr>"

text \<open>
  \<^verbatim>\<open>t.AddParseTree(name, tree)\<close>: the tree is entered in the table under its name, unless it
  is empty and the name is already taken; the handle's own tree is set when the name is the
  handle's and the tree was entered or the handle had none.
\<close>

definition AddParseTree :: "'tree engine \<Rightarrow> 'tree Template \<Rightarrow> string \<times> 'tree \<Rightarrow> 'tree Template" where
  "AddParseTree E t nt =
     (let associate = \<not> (tmpl t (fst nt) \<noteq> None \<and> IsEmptyTree E (snd nt));
          t1 = (if associate then t\<lparr>tmpl := (tmpl t)(fst nt \<mapsto> snd nt)\<rparr> else t)
      in if fst nt = name t \<and> (associate \<or> Tree t = None) then t1\<lparr>Tree := Some (snd nt)\<rparr>
         else t1)"

text \<open>\<^verbatim>\<open>t.Parse(text)\<close> returns the handle \<^verbatim>\<open>t\<close> itself, or the parse error.\<close>

definition Parse :: "'tree engine \<Rightarrow> 'tree Template \<Rightarrow> string \<Rightarrow> error + 'tree Template" where
  "Parse E t text =
     (case parse_text E (funcs t) (name t) text of
        Inl e \<Rightarrow> Inl (TemplateError e)
      | Inr trees \<Rightarrow> Inr (foldl (AddParseTree E) t trees))"

text \<open>
  \<^verbatim>\<open>t.Execute(w, data)\<close> runs the handle's own tree; \<^verbatim>\<open>t.ExecuteTemplate(w, name, data)\<close>
  runs the tree that the table has under the name.
\<close>

definition Execute :: "'tree engine \<Rightarrow> 'tree Template \<Rightarrow> json \<Rightarrow> error + string" where
  "Execute E t data =
     (case Tree t of
        None \<Rightarrow> Inl (TemplateError (''template: '' @ name t @ '' is an incomplete or empty template''))
      | Some tree \<Rightarrow>
          (case exec E tree (tmpl t) (funcs t) data of
             Inl e \<Rightarrow> Inl (TemplateError e)
           | Inr out \<Rightarrow> Inr out))"

definition ExecuteTemplate :: "'tree engine \<Rightarrow> 'tree Template \<Rightarrow> string \<Rightarrow> json \<Rightarrow> error + string" where
  "ExecuteTemplate E t n data =
     (case tmpl t n of
        None \<Rightarrow> Inl (TemplateError (''template: no template '' @ n @ '' associated with template '' @ name t))
      | Some tree \<Rightarrow>
          (case exec E tree (tmpl t) (funcs t) data of
             Inl e \<Rightarrow> Inl (TemplateError e)
           | Inr out \<Rightarrow> Inr out))"

subsection \<open>BuildTemplate\<close>

text \<open>
  The two loops of \<^verbatim>\<open>BuildTemplate\<close>. Each round makes a new handle with \<^verbatim>\<open>tpl.New(n)\<close>,
  parses into it and assigns the handle that \<^verbatim>\<open>Parse\<close> returns to \<^verbatim>\<open>tpl\<close>.
\<close>

fun local_loop :: "'tree engine \<Rightarrow> filesystem \<Rightarrow> string list \<Rightarrow> 'tree Template \<Rightarrow> string list
    \<Rightarrow> error + 'tree Template \<times> string list" where
  "local_loop E fs [] tpl all = Inr (tpl, all)"
| "local_loop E fs (lft # rest) tpl all =
     (case fload fs lft of
        (text, Some err) \<Rightarrow> Inl err
      | (text, None) \<Rightarrow>
          (let n = Base lft in
           case Parse E (New_assoc tpl n) text of
             Inl err \<Rightarrow> Inl err
           | Inr tpl' \<Rightarrow> local_loop E fs rest tpl' (all @ [n])))"

text \<open>
  \<^verbatim>\<open>loadedFiles\<close> is a Go map; the list gives its entries in the order in which the
  \<^verbatim>\<open>range\<close> statement happens to visit them.
\<close>

fun loaded_loop :: "'tree engine \<Rightarrow> (string \<times> string) list \<Rightarrow> 'tree Template \<Rightarrow> string list
    \<Rightarrow> error + 'tree Template \<times> string list" where
  "loaded_loop E [] tpl all = Inr (tpl, all)"
| "loaded_loop E ((fname, content) # rest) tpl all =
     (let fname' = Base fname in
      case Parse E (New_assoc tpl fname') content of
        Inl err \<Rightarrow> Inl err
      | Inr tpl' \<Rightarrow> loaded_loop E rest tpl' (all @ [fname']))"

definition BuildTemplate :: "'tree engine \<Rightarrow> filesystem \<Rightarrow> templeFnMap \<Rightarrow> bool \<Rightarrow> string \<Rightarrow> string
    \<Rightarrow> (string \<times> string) list \<Rightarrow> string list \<Rightarrow> error + 'tree Template \<times> string list" where
  "BuildTemplate E fs t unsafe nm template loadedFiles localFiles =
     (let tpl0 = Funcs (New nm) (BuildFuncMap t unsafe) in
      case (if template \<noteq> [] then
              (case Parse E tpl0 template of
                 Inl err \<Rightarrow> Inl err
               | Inr tpl \<Rightarrow> Inr (tpl, [Base nm]))
            else Inr (tpl0, [])) of
        Inl err \<Rightarrow> Inl err
      | Inr (tpl1, all1) \<Rightarrow>
          (case local_loop E fs localFiles tpl1 all1 of
             Inl err \<Rightarrow> Inl err
           | Inr (tpl2, all2) \<Rightarrow>
               (case loaded_loop E loadedFiles tpl2 all2 of
                  Inl err \<Rightarrow> Inl err
                | Inr (tpl3, all3) \<Rightarrow>
                    if length all3 < 1 then Inl (Errorf ''no templates found'')
                    else Inr (tpl3, all3))))"

text \<open>
  An engine to run the definitions on: the tree of a text is the text, under the given name
  only, and executing a tree writes it out.
\<close>

definition echo_engine :: "string engine" where
  "echo_engine = \<lparr>parse_text = (\<lambda>fm n text. Inr [(n, text)]),
                  IsEmptyTree = (\<lambda>tree. tree = []),
                  exec = (\<lambda>tree tm fm data. Inr tree)\<rparr>"

definition no_files :: filesystem where
  "no_files p = Inl (''open '' @ p @ '': no such file or directory'')"

subsection \<open>What BuildTemplate returns\<close>

text \<open>Whether a result is a value and not an error.\<close>

definition isOK :: "'e + 'a \<Rightarrow> bool" where
  "isOK r = (case r of Inl _ \<Rightarrow> False | Inr _ \<Rightarrow> True)"




section \<open>Usage tracking (track.go)\<close>

text \<open>
  \<^verbatim>\<open>fnTrack\<close> is the record sent on the channel. The arguments and the output are values of
  any Go type (\<open>'v\<close>); \<^verbatim>\<open>Output\<close> holds the text that \<^verbatim>\<open>fmt.Sprintf("%#v", output)\<close> makes of
  the output, and \<^verbatim>\<open>T\<close> the reading of the clock.
\<close>

record 'v fnTrack =
  T :: nat
  F :: string
  Args :: "'v list"
  Output :: string
  Err :: "error option"

text \<open>
  The package-level state: the flag \<^verbatim>\<open>debugAllFunctions\<close>; whether \<^verbatim>\<open>startTracingOnce\<close>
  has run, that is, whether the goroutine of \<^verbatim>\<open>usageDebugger\<close> exists; the counter of the
  wait group \<^verbatim>\<open>Tracking\<close>; and the unbuffered channel \<^verbatim>\<open>fnTrackChan\<close>, given by the
  records on which a send has been executed, in order. The consumer goroutine is given by
  the record it has received and not yet logged (\<open>inflight\<close>) and by what it has logged.
\<close>

record 'v tracker =
  debugAllFunctions :: bool
  started :: bool
  Tracking :: int
  fnTrackChan :: "'v fnTrack list"
  inflight :: "'v fnTrack option"
  logged :: "'v fnTrack list"

definition init_tracker :: "'v tracker" where
  "init_tracker = \<lparr>debugAllFunctions = False, started = False, Tracking = 0,
                    fnTrackChan = [], inflight = None, logged = []\<rparr>"

text \<open>
  One round of the loop in \<^verbatim>\<open>usageDebugger\<close> after a record was received: the record is
  logged and \<^verbatim>\<open>Tracking.Done()\<close> is called. Without a record in hand the goroutine waits
  at the channel.
\<close>

definition usageDebugger_step :: "'v tracker \<Rightarrow> 'v tracker" where
  "usageDebugger_step st =
     (case inflight st of
        None \<Rightarrow> st
      | Some x \<Rightarrow> st\<lparr>logged := logged st @ [x], Tracking := Tracking st - 1, inflight := None\<rparr>)"

text \<open>
  A call either returns or stays blocked at the channel send, in the state given.
\<close>

datatype 'a outcome = Returns 'a | Blocks 'a

fun state_of :: "'a outcome \<Rightarrow> 'a" where
  "state_of (Returns s) = s"
| "state_of (Blocks s) = s"

text \<open>
  \<^verbatim>\<open>trackUsage\<close>: when the flag or \<^verbatim>\<open>alwaysTrack\<close> is set, \<^verbatim>\<open>Tracking.Add(1)\<close> and the send
  \<^verbatim>\<open>fnTrackChan <- &fnTrack{...}\<close>. The channel has no buffer, so the send completes
  when the consumer goroutine receives: it must exist, and it is back at the channel only
  after it has logged the record it held. Without a consumer the sender stays blocked.
\<close>

definition trackUsage :: "('v \<Rightarrow> string) \<Rightarrow> nat \<Rightarrow> string \<Rightarrow> bool \<Rightarrow> 'v \<Rightarrow> error option \<Rightarrow> 'v list
    \<Rightarrow> 'v tracker \<Rightarrow> 'v tracker outcome" where
  "trackUsage Sprintf_v now fn' alwaysTrack output err args st =
     (if debugAllFunctions st \<or> alwaysTrack then
        (let x = \<lparr>T = now, F = fn', Args = args, Output = Sprintf_v output, Err = err\<rparr>;
             st1 = st\<lparr>Tracking := Tracking st + 1, fnTrackChan := fnTrackChan st @ [x]\<rparr>
         in if started st1 then Returns ((usageDebugger_step st1)\<lparr>inflight := Some x\<rparr>)
            else Blocks st1)
      else Returns st)"

text \<open>
  \<^verbatim>\<open>StartTracking\<close> sets the flag and runs \<^verbatim>\<open>usageDebugger\<close> through \<^verbatim>\<open>sync.Once\<close>, so the
  consumer is started the first time only; \<^verbatim>\<open>StopTracking\<close> clears the flag and leaves the
  consumer running.
\<close>

definition StartTracking :: "'v tracker \<Rightarrow> 'v tracker" where
  "StartTracking st = st\<lparr>debugAllFunctions := True, started := True\<rparr>"

definition StopTracking :: "'v tracker \<Rightarrow> 'v tracker" where
  "StopTracking st = st\<lparr>debugAllFunctions := False\<rparr>"

subsection \<open>Helper invocations (funcs.go)\<close>

text \<open>
  What a helper hands to \<^verbatim>\<open>trackUsage\<close>: its arguments, as values, and for the output the
  pointer \<^verbatim>\<open>&out\<close> to its named result. The deferred call reads the result through the
  pointer when it runs, so \<open>Ptr v\<close> is the pointer together with the value \<open>v\<close> found there.
\<close>

datatype go_value = Val input | Ptr input

text \<open>
  What the tracker asks of the library: the text that \<^verbatim>\<open>fmt.Sprintf("%#v", _)\<close> makes of a
  value, and \<^verbatim>\<open>time.Now()\<close>, given by the reading taken for the record made after \<open>k\<close>
  others.
\<close>

record runtime =
  Sprintf_v :: "go_value \<Rightarrow> string"
  Now :: "nat \<Rightarrow> nat"

text \<open>
  An invocation of a helper starts in a state of the tracker and gives the helper's
  result; it returns to its caller in a new state, or stays blocked in one and never
  returns. \<open>untracked\<close> is a function that leaves the tracker alone.
\<close>

type_synonym 'a call = "go_value tracker \<Rightarrow> 'a \<times> go_value tracker outcome"

definition untracked :: "'a \<Rightarrow> 'a call" where
  "untracked res st = (res, Returns st)"

text \<open>
  A tracked helper opens with \<^verbatim>\<open>defer trackUsage(name, alwaysTrack, &out, err, args...)\<close>.
  The arguments of the deferred call are evaluated at the \<^verbatim>\<open>defer\<close> statement, where the
  named result \<^verbatim>\<open>err\<close> is still \<^verbatim>\<open>nil\<close>; the call itself runs when the body has come to
  its end, on every path, and sees the result through the pointer. A body that stays
  blocked never gets there.
\<close>

definition defer_trackUsage :: "runtime \<Rightarrow> string \<Rightarrow> bool \<Rightarrow> ('a \<Rightarrow> go_value) \<Rightarrow> go_value list
    \<Rightarrow> 'a call \<Rightarrow> 'a call" where
  "defer_trackUsage R fn' alwaysTrack output args body st =
     (case body st of
        (res, Blocks s) \<Rightarrow> (res, Blocks s)
      | (res, Returns s) \<Rightarrow>
          (res, trackUsage (Sprintf_v R) (Now R (length (fnTrackChan s))) fn' alwaysTrack
                  (output res) None args s))"

text \<open>
  The pointer to a result of type \<^verbatim>\<open>[]byte\<close> or \<^verbatim>\<open>string\<close>: every return with an error
  leaves \<^verbatim>\<open>nil\<close> or the empty string in \<^verbatim>\<open>out\<close>.
\<close>

definition ptr_bytes :: "error + string \<Rightarrow> go_value" where
  "ptr_bytes r = Ptr (Bytes (case r of Inl err \<Rightarrow> [] | Inr out \<Rightarrow> out))"

definition ptr_string :: "error + string \<Rightarrow> go_value" where
  "ptr_string r = Ptr (String (case r of Inl err \<Rightarrow> [] | Inr out \<Rightarrow> out))"

text \<open>
  The helpers modelled above, as invocations. \<^verbatim>\<open>hexenc\<close>, \<^verbatim>\<open>hexdec\<close>, \<^verbatim>\<open>b64dec\<close> and
  \<^verbatim>\<open>encrypt\<close> defer the call and do not touch the tracker otherwise (\<^verbatim>\<open>Random\<close> and
  \<^verbatim>\<open>consumeReader\<close> contain no call of \<^verbatim>\<open>trackUsage\<close>). \<^verbatim>\<open>decrypt\<close> and \<^verbatim>\<open>_gunzip\<close> call
  \<^verbatim>\<open>b64dec\<close> when the input is a string, and that invocation runs its own deferred call
  before it returns. \<^verbatim>\<open>is\<close> contains no call of \<^verbatim>\<open>trackUsage\<close>.
\<close>

definition hexenc_call :: "runtime \<Rightarrow> input \<Rightarrow> (error + string) call" where
  "hexenc_call R in' =
     defer_trackUsage R ''hexenc'' False ptr_string [Val in'] (untracked (hexenc in'))"

definition hexdec_call :: "runtime \<Rightarrow> golib \<Rightarrow> input \<Rightarrow> (error + string) call" where
  "hexdec_call R L in' =
     defer_trackUsage R ''hexdec'' False ptr_bytes [Val in'] (untracked (hexdec L in'))"

definition b64dec_call :: "runtime \<Rightarrow> golib \<Rightarrow> input \<Rightarrow> (error + string) call" where
  "b64dec_call R L in' =
     defer_trackUsage R ''b64dec'' False ptr_bytes [Val in'] (untracked (b64dec L in'))"

definition encrypt_call :: "runtime \<Rightarrow> aes_gcm \<Rightarrow> string \<Rightarrow> input \<Rightarrow> string \<Rightarrow> string
    \<Rightarrow> (error + string) call" where
  "encrypt_call R A rnd in' b64key aad =
     defer_trackUsage R ''encrypt'' False ptr_bytes [Val in', Val (String b64key), Val (String aad)]
       (untracked (encrypt A rnd in' b64key aad))"

definition decrypt_call :: "runtime \<Rightarrow> golib \<Rightarrow> aes_gcm \<Rightarrow> input \<Rightarrow> string \<Rightarrow> string
    \<Rightarrow> (error + string) call" where
  "decrypt_call R L A in' b64key aad =
     defer_trackUsage R ''decrypt'' False ptr_bytes [Val in', Val (String b64key), Val (String aad)]
       (\<lambda>st. (decrypt L A in' b64key aad,
               (case in' of
                  String t \<Rightarrow> snd (b64dec_call R L (String t) st)
                | _ \<Rightarrow> Returns st)))"

definition gunzip_call :: "runtime \<Rightarrow> (reader \<Rightarrow> error + string) \<Rightarrow> golib \<Rightarrow> input
    \<Rightarrow> (error + string) call" where
  "gunzip_call R Z L in' =
     defer_trackUsage R ''gunzip'' False ptr_bytes [Val in']
       (\<lambda>st. (gunzip Z L in',
               (case in' of
                  String t \<Rightarrow> snd (b64dec_call R L (String t) st)
                | _ \<Rightarrow> Returns st)))"

definition is_call :: "golib \<Rightarrow> string \<Rightarrow> string \<Rightarrow> bool call" where
  "is_call L s what = untracked (is L s what)"

text \<open>
  The record that a deferred call makes after \<open>k\<close> others, and what it is for an invocation
  to return having sent exactly the records \<open>recs\<close>, each of them counted once in the wait
  group.
\<close>

definition usage_record :: "runtime \<Rightarrow> nat \<Rightarrow> string \<Rightarrow> go_value \<Rightarrow> go_value list
    \<Rightarrow> go_value fnTrack" where
  "usage_record R k fn' output args =
     \<lparr>T = Now R k, F = fn', Args = args, Output = Sprintf_v R output, Err = None\<rparr>"

definition enqueues :: "'a call \<Rightarrow> go_value tracker \<Rightarrow> go_value fnTrack list \<Rightarrow> bool" where
  "enqueues c st recs =
     (case snd (c st) of
        Blocks s \<Rightarrow> False
      | Returns s \<Rightarrow>
          fnTrackChan s = fnTrackChan st @ recs
          \<and> Tracking s + int (length (logged s))
              = Tracking st + int (length (logged st)) + int (length recs)
          \<and> debugAllFunctions s = debugAllFunctions st \<and> started s = started st)"

text \<open>
  A library to run the invocations on: the text of a string or of bytes is the bytes, the
  text of a pointer has \<^verbatim>\<open>&\<close> before it, and the clock counts the records.
\<close>

definition test_runtime :: runtime where
  "test_runtime =
     \<lparr>Sprintf_v = (\<lambda>v. case v of
                         Val (String s) \<Rightarrow> s | Val (Bytes b) \<Rightarrow> b | Val (Reader r) \<Rightarrow> fst r
                       | Val (Other ty) \<Rightarrow> ty
                       | Ptr (String s) \<Rightarrow> ''&'' @ s | Ptr (Bytes b) \<Rightarrow> ''&'' @ b
                       | Ptr (Reader r) \<Rightarrow> ''&'' @ fst r | Ptr (Other ty) \<Rightarrow> ''&'' @ ty),
      Now = (\<lambda>k. k)\<rparr>"

section \<open>The render service (server.go, RenderServer)\<close>

subsection \<open>Requests, responses and the library\<close>

text \<open>
  \<^verbatim>\<open>jreq\<close> and \<^verbatim>\<open>jresp\<close>. \<open>Templates\<close> is a Go map, kept as a list of entries with distinct
  keys; assigning to a key replaces the entry or adds one.
\<close>

record jreq =
  Template :: string
  Templates :: "(string \<times> string) list"
  Data :: json
  Outfile :: string
  ForceDL :: bool

record jresp =
  status :: nat
  Error :: error

fun put :: "'k \<Rightarrow> 'v \<Rightarrow> ('k \<times> 'v) list \<Rightarrow> ('k \<times> 'v) list" where
  "put k v [] = [(k, v)]"
| "put k v (e # es) = (if fst e = k then (k, v) # es else e # put k v es)"

text \<open>
  A part of a multipart body has a form name, a file name and a content, read as a
  \<open>reader\<close>. \<^verbatim>\<open>mr.NextPart()\<close> gives a part or an error; the end of the list is \<^verbatim>\<open>io.EOF\<close>.
\<close>

record Part =
  FormName :: string
  FileName :: string
  content :: reader

datatype next_part = NextPart Part | NextPartError string

text \<open>
  The request, as the handler sees it: the method, the \<^verbatim>\<open>content-type\<close> header, what
  \<^verbatim>\<open>httputil.DumpRequest(r, true)\<close> gives (an error text or the dump), what
  \<^verbatim>\<open>r.MultipartReader()\<close> gives (an error text or the stream of parts), and the body.
\<close>

record Request =
  Method :: string
  content_type :: string
  DumpRequest :: "string + string"
  MultipartReader :: "string + next_part list"
  Body :: string

text \<open>
  The response: the status given to \<^verbatim>\<open>WriteHeader\<close>, the headers set, and what is written.
  \<open>ErrorLine e\<close> is the text of the error \<open>e\<close> and a newline, as \<^verbatim>\<open>http.Error\<close> writes it;
  \<open>JsonResp j\<close> is the JSON encoding of \<open>j\<close>.
\<close>

datatype body = Raw string | ErrorLine error | JsonResp jresp | NoBody

record Response =
  Status :: nat
  Header :: "(string \<times> string) list"
  Body_written :: body

text \<open>
  The surroundings of the handler: the two package flags,
  the text and HTML template engines, the file system, the rendering of function types for
  the global \<^verbatim>\<open>FnMap\<close>, the JSON decoders (of a whole request into \<^verbatim>\<open>jreq\<close>, and of the
  \<^verbatim>\<open>data\<close> part into a value), \<^verbatim>\<open>http.DetectContentType\<close>, and the order in which a
  \<^verbatim>\<open>range\<close> visits the entries of a map.
\<close>

record ('t, 'h) env =
  DebugHTTPRequests :: bool
  EnableUnsafeFunctions :: bool
  text_engine :: "'t engine"
  html_engine :: "'h engine"
  files :: filesystem
  TypeOf :: "callable \<Rightarrow> string"
  Decode_jreq :: "string \<Rightarrow> jreq \<Rightarrow> string + jreq"
  Unmarshal :: "string \<Rightarrow> string + json"
  DetectContentType :: "string \<Rightarrow> string"
  range_order :: "(string \<times> string) list \<Rightarrow> (string \<times> string) list"

subsection \<open>Library functions written out\<close>

fun Contains :: "string \<Rightarrow> string \<Rightarrow> bool" where
  "Contains [] substr = (substr = [])"
| "Contains (c # cs) substr = (HasPrefix (c # cs) substr \<or> Contains cs substr)"

definition ParseBool :: "string \<Rightarrow> error + bool" where
  "ParseBool str =
     (if str \<in> set [''1'', ''t'', ''T'', ''TRUE'', ''true'', ''True''] then Inr True
      else if str \<in> set [''0'', ''f'', ''F'', ''FALSE'', ''false'', ''False''] then Inr False
      else Inl (strconv_ErrSyntax ''ParseBool'' str))"

fun Itoa_nat :: "nat \<Rightarrow> string" where
  "Itoa_nat n =
     (if n < 10 then [char_of (48 + n)]
      else Itoa_nat (n div 10) @ [char_of (48 + n mod 10)])"

declare Itoa_nat.simps [simp del]

text \<open>\<^verbatim>\<open>http.Error\<close> sets two headers, writes the status and the error text with a newline.\<close>

definition http_Error :: "Response \<Rightarrow> body \<Rightarrow> nat \<Rightarrow> Response" where
  "http_Error w msg code =
     w\<lparr>Header := put ''X-Content-Type-Options'' ''nosniff''
                    (put ''Content-Type'' ''text/plain; charset=utf-8''
                       (filter (\<lambda>h. fst h \<noteq> ''Content-Length'') (Header w))),
       Status := code, Body_written := msg\<rparr>"

text \<open>
  \<^verbatim>\<open>bye\<close> is \<^verbatim>\<open>http.Redirect\<close> with status 308: the \<^verbatim>\<open>Location\<close> header, and for GET and
  HEAD a content type, for GET a short HTML body.
\<close>

definition redirect_url :: string where
  "redirect_url = ''https://www.youtube.com/watch?v=dQw4w9WgXcQ?autoplay=1''"

definition bye :: "Response \<Rightarrow> Request \<Rightarrow> Response" where
  "bye w r =
     (let h1 = put ''Location'' redirect_url (Header w);
          h2 = (if Method r = ''GET'' \<or> Method r = ''HEAD''
                then put ''Content-Type'' ''text/html; charset=utf-8'' h1 else h1)
      in w\<lparr>Header := h2, Status := 308,
           Body_written := (if Method r = ''GET''
                            then Raw (''<a href='' @ [CHR 0x22] @ redirect_url @ [CHR 0x22]
                                      @ ''>Permanent Redirect</a>.'' @ [LF, LF])
                            else NoBody)\<rparr>)"

definition new_response :: Response where
  "new_response = \<lparr>Status = 200, Header = [], Body_written = NoBody\<rparr>"

definition json_error :: "Response \<Rightarrow> nat \<Rightarrow> error \<Rightarrow> Response" where
  "json_error w code err =
     w\<lparr>Status := code, Body_written := JsonResp \<lparr>status = code, Error = err\<rparr>\<rparr>"

subsection \<open>The handler\<close>

text \<open>
  The loop over the parts of a multipart body. Every failure to read is answered with
  \<^verbatim>\<open>http.StatusInternalServerError\<close>; a \<^verbatim>\<open>forcedl\<close> part that is not a boolean with
  \<^verbatim>\<open>http.StatusBadRequest\<close>. Parts with other form names are skipped.
\<close>

fun read_parts :: "('t, 'h) env \<Rightarrow> Response \<Rightarrow> next_part list \<Rightarrow> jreq \<Rightarrow> Response + jreq" where
  "read_parts X w [] post = Inr post"
| "read_parts X w (NextPartError e # rest) post = Inl (http_Error w (ErrorLine (LibError e)) 500)"
| "read_parts X w (NextPart part # rest) post =
     (let pname = FormName part; buf = fst (content part) in
      if pname = ''template'' then
        (case snd (content part) of
           Some e \<Rightarrow> Inl (http_Error w (ErrorLine (ReadError e)) 500)
         | None \<Rightarrow> read_parts X w rest (post\<lparr>Template := buf\<rparr>))
      else if pname = ''data'' then
        (case snd (content part) of
           Some e \<Rightarrow> Inl (http_Error w (ErrorLine (ReadError e)) 500)
         | None \<Rightarrow>
             (case Unmarshal X buf of
                Inl e \<Rightarrow> read_parts X w rest (post\<lparr>Data := JString buf\<rparr>)
              | Inr v \<Rightarrow> read_parts X w rest (post\<lparr>Data := v\<rparr>)))
      else if pname = ''templates'' then
        (case snd (content part) of
           Some e \<Rightarrow> Inl (http_Error w (ErrorLine (ReadError e)) 500)
         | None \<Rightarrow>
             (if length buf > 0
              then read_parts X w rest (post\<lparr>Templates := put (FileName part) buf (Templates post)\<rparr>)
              else read_parts X w rest post))
      else if pname = ''outfile'' then
        (case snd (content part) of
           Some e \<Rightarrow> Inl (http_Error w (ErrorLine (ReadError e)) 500)
         | None \<Rightarrow> read_parts X w rest (post\<lparr>Outfile := buf\<rparr>))
      else if pname = ''forcedl'' then
        (case snd (content part) of
           Some e \<Rightarrow> Inl (http_Error w (ErrorLine (ReadError e)) 500)
         | None \<Rightarrow>
             (case ParseBool buf of
                Inl err \<Rightarrow> Inl (http_Error w (ErrorLine err) 400)
              | Inr b \<Rightarrow> read_parts X w rest (post\<lparr>ForceDL := b\<rparr>)))
      else read_parts X w rest post)"

declare read_parts.simps(3) [simp del]

definition is_multipart :: "Request \<Rightarrow> bool" where
  "is_multipart r = Contains (content_type r) ''multipart''"

definition empty_post :: jreq where
  "empty_post = \<lparr>Template = [], Templates = [], Data = JNull, Outfile = [], ForceDL = False\<rparr>"

text \<open>Reading the request into \<^verbatim>\<open>post\<close>: the multipart branch and the JSON branch.\<close>

definition parse_request :: "('t, 'h) env \<Rightarrow> Response \<Rightarrow> Request \<Rightarrow> Response + jreq" where
  "parse_request X w r =
     (if is_multipart r then
        (case MultipartReader r of
           Inl e \<Rightarrow> Inl (http_Error w (ErrorLine (LibError e)) 500)
         | Inr mr \<Rightarrow> read_parts X w mr empty_post)
      else
        (case Decode_jreq X (Body r) empty_post of
           Inl e \<Rightarrow> Inl (json_error w 400 (LibError e))
         | Inr post \<Rightarrow> Inr post))"

text \<open>
  The constants \<^verbatim>\<open>htmlHead\<close>, \<^verbatim>\<open>htmlArticle\<close> and \<^verbatim>\<open>renderedPage\<close>, line by line. The page
  holds one template action, \<^verbatim>\<open>{{.Output}}\<close>, inside the \<^verbatim>\<open>code\<close> element of the article.
\<close>

definition unlines :: "string list \<Rightarrow> string" where
  "unlines ls = concat (map (\<lambda>l. l @ [LF]) ls)"

definition htmlHead :: string where
  "htmlHead = [LF] @ unlines
       [''<!DOCTYPE html>'',
        ''<meta name='' @ [DQ] @ ''viewport'' @ [DQ] @ '' charset='' @ [DQ] @ ''utf-8'' @ [DQ] @ '' content='' @ [DQ] @ ''width=device-width, initial-scale=1'' @ [DQ] @ ''>'',
        ''<meta http-equiv='' @ [DQ] @ ''Cache-Control'' @ [DQ] @ '' content='' @ [DQ] @ ''no-cache, no-store, must-revalidate'' @ [DQ] @ '' />'',
        ''<meta http-equiv='' @ [DQ] @ ''Pragma'' @ [DQ] @ '' content='' @ [DQ] @ ''no-cache'' @ [DQ] @ '' />'',
        ''<meta http-equiv='' @ [DQ] @ ''Expires'' @ [DQ] @ '' content='' @ [DQ] @ ''0'' @ [DQ] @ '' />'',
        ''<style type='' @ [DQ] @ ''text/css'' @ [DQ] @ ''>'',
        ''Body {'',
        [TAB] @ ''background-color:darkgray;'',
        [TAB] @ ''display:flex;'',
        [TAB] @ ''font-family: Calibri, Helvetica, sans-serif;'',
        ''}'',
        ''.container {'',
        [TAB] @ ''padding: 12px 20px;'',
        [TAB] @ ''background: #eee;'',
        [TAB] @ ''border-radius: 3px;'',
        [TAB] @ ''border: 3px solid;'',
        [TAB] @ ''box-shadow: 0 1px 2px rgba(0, 0, 0, .1);'',
        [TAB] @ ''overflow:auto;'',
        [TAB] @ ''display: -webkit-flex;'',
        [TAB] @ ''-webkit-justify-content: center;'',
        [TAB] @ ''-webkit-align-items: center;'',
        [TAB] @ ''position: absolute;'',
        [TAB] @ ''display: table;'',
        ''}'',
        ''textarea {'',
        [TAB] @ ''display: inline-block;'',
        [TAB] @ ''min-width: 25em;'',
        [TAB] @ ''min-height: 15em;'',
        [TAB] @ ''overflow: auto;'',
        [TAB] @ ''resize: both;'',
        ''}'',
        ''#formItem label {'',
        ''    display: inline-block;'',
        [TAB] @ ''margin:auto;'',
        [TAB] @ ''position:absolute;'',
        [TAB] @ ''padding: 1px 1px;'',
        ''}'',
        ''p { white-space: pre-line; }'',
        ''button {'',
        [TAB] @ ''margin-left :5px;'',
        [TAB] @ ''margin-top :5px;'',
        [TAB] @ ''color: white;'',
        [TAB] @ ''padding: 0.5rem;'',
        [TAB] @ ''font-family: sans-serif;'',
        [TAB] @ ''border-radius: 0.3rem;'',
        [TAB] @ ''cursor: pointer;'',
        [TAB] @ ''margin-top: 1rem;'',
        ''}'',
        ''.custom-file-label {'',
        [TAB] @ ''content: '' @ [DQ] @ ''add templates..'' @ [DQ] @ '';'',
        ''}'',
        ''code {'',
        ''    white-space: pre-wrap;'',
        ''    overflow-wrap: break-word;'',
        [TAB] @ ''overflow: auto;'',
        ''}'',
        ''</style>'',
        ''<title>xprint render</title>'']"

definition htmlArticle :: string where
  "htmlArticle = [LF] @ unlines
       [''<div class='' @ [DQ] @ ''container'' @ [DQ] @ ''>'',
        ''<article class='' @ [DQ] @ ''all-browsers'' @ [DQ] @ ''>'',
        ''<pre style='' @ [DQ] @ ''max-height: 25em; overflow: scroll;'' @ [DQ] @ ''><code class=''
          @ [DQ] @ ''codeblock'' @ [DQ] @ ''>{{.Output}}</code></pre>'',
        ''</article>'',
        ''</div>'',
        ''</body>'']
     @ ''</html>''"

definition renderedPage :: string where
  "renderedPage = htmlHead @ htmlArticle"

text \<open>
  The inline answer: the page template is built from the global \<^verbatim>\<open>FnMap\<close> without the
  unsafe functions and executed by its name with the output as data.
  \<^verbatim>\<open>BuildHTMLTemplate\<close> and \<^verbatim>\<open>BuildHTMLFuncMap\<close> repeat \<^verbatim>\<open>BuildTemplate\<close> and
  \<^verbatim>\<open>BuildFuncMap\<close> line by line for the HTML engine, so they are \<open>BuildTemplate\<close> and
  \<open>BuildFuncMap\<close> with that engine.
\<close>

definition inline_page :: "('t, 'h) env \<Rightarrow> string \<Rightarrow> error + string" where
  "inline_page X out =
     (case BuildTemplate (html_engine X) (files X) (FnMap (TypeOf X)) False ''rendered''
             renderedPage [] [] of
        Inl err \<Rightarrow> Inl err
      | Inr (tpl, all) \<Rightarrow>
          ExecuteTemplate (html_engine X) tpl ''rendered'' (JObject [(''Output'', JString out)]))"

text \<open>
  The answer after a successful execution. \<^verbatim>\<open>ctypeBuf\<close> starts as 512 zero bytes, and the
  output is written after them.
\<close>

definition respond :: "('t, 'h) env \<Rightarrow> Response \<Rightarrow> jreq \<Rightarrow> bool \<Rightarrow> string \<Rightarrow> Response" where
  "respond X w post0 multipart buf =
     (let post = (if Outfile post0 = [] then post0\<lparr>Outfile := ''rendered.out''\<rparr> else post0);
          ctypeBuf = replicate 512 (CHR 0x00) @ buf;
          w1 = w\<lparr>Header := put ''Content-Control'' ''private, no-transform, no-store, must-revalidate''
                              (put ''Expires'' ''0'' (Header w))\<rparr>
      in if length buf < 2 ^ 20 \<and> \<not> ForceDL post \<and> multipart then
           (case inline_page X buf of
              Inl err \<Rightarrow> w1\<lparr>Status := 500\<rparr>
            | Inr rbuf \<Rightarrow> w1\<lparr>Status := 200, Body_written := Raw rbuf\<rparr>)
         else
           w1\<lparr>Header :=
                 put ''Content-Length'' (Itoa_nat (length buf))
                   (put ''Content-Transfer-Encoding'' ''binary''
                      (put ''Content-Disposition'' (''attachment; filename='' @ Outfile post)
                         (put ''Content-Type'' (DetectContentType X ctypeBuf) (Header w1)))),
               Status := 200, Body_written := Raw buf\<rparr>)"

text \<open>
  \<^verbatim>\<open>RenderServer(fnMap)\<close>. The template is built with \<^verbatim>\<open>BuildTemplate\<close> under the name
  \<^verbatim>\<open>post\<close>, the name list is dropped, and the handle returned is executed with
  \<^verbatim>\<open>tpl.Execute\<close>.
\<close>

definition RenderServer :: "('t, 'h) env \<Rightarrow> templeFnMap \<Rightarrow> Request \<Rightarrow> Response" where
  "RenderServer X fnMap r =
     (let w = new_response in
      if DebugHTTPRequests X \<and> \<not> isOK (DumpRequest r) then http_Error w (Raw [LF]) 500
      else if Method r \<noteq> ''POST'' then bye w r
      else
        (case parse_request X w r of
           Inl resp \<Rightarrow> resp
         | Inr post \<Rightarrow>
             (case BuildTemplate (text_engine X) (files X) fnMap (EnableUnsafeFunctions X) ''post''
                     (Template post) (range_order X (Templates post)) [] of
                Inl err \<Rightarrow> json_error w 400 err
              | Inr (tpl, all) \<Rightarrow>
                  (case Execute (text_engine X) tpl (Data post) of
                     Inl err \<Rightarrow> json_error w 500 err
                   | Inr buf \<Rightarrow> respond X w post (is_multipart r) buf))))"

text \<open>
  An HTML engine to run the handler on. The tree of a text is the text, under the given
  name only; executing a tree writes the text with each action \<^verbatim>\<open>{{.Output}}\<close> replaced
  by the field \<^verbatim>\<open>Output\<close> of the data, in which the double and the single quote and the
  characters \<^verbatim>\<open>&\<close>, \<^verbatim>\<open>+\<close>, \<^verbatim>\<open><\<close> and \<^verbatim>\<open>>\<close> are written as entities.
\<close>

definition field_Output :: "json \<Rightarrow> string" where
  "field_Output data =
     (case data of
        JObject kvs \<Rightarrow> (case map_of kvs ''Output'' of Some (JString s) \<Rightarrow> s | _ \<Rightarrow> [])
      | _ \<Rightarrow> [])"

fun escape_char :: "char \<Rightarrow> string" where
  "escape_char c =
     (if c = DQ then ''&#34;''
      else if c = CHR ''&'' then ''&amp;''
      else if c = CHR 0x27 then ''&#39;''
      else if c = CHR ''+'' then ''&#43;''
      else if c = CHR ''<'' then ''&lt;''
      else if c = CHR ''>'' then ''&gt;''
      else [c])"

fun fill_action :: "nat \<Rightarrow> string \<Rightarrow> string \<Rightarrow> string" where
  "fill_action skip out [] = []"
| "fill_action skip out (c # cs) =
     (if skip > 0 then fill_action (skip - 1) out cs
      else if HasPrefix (c # cs) ''{{.Output}}'' then out @ fill_action 10 out cs
      else c # fill_action 0 out cs)"

definition page_engine :: "string engine" where
  "page_engine = \<lparr>parse_text = (\<lambda>fm n text. Inr [(n, text)]),
                  IsEmptyTree = (\<lambda>tree. tree = []),
                  exec = (\<lambda>tree tm fm data.
                            Inr (fill_action 0 (concat (map escape_char (field_Output data))) tree))\<rparr>"

text \<open>
  A decoder of requests to run the handler on. It knows bodies of one form: an object with
  the one member \<^verbatim>\<open>template\<close>, whose value is a string of printable ASCII characters
  without escapes. Like \<^verbatim>\<open>json.Decoder\<close> it reads the first JSON value of the body and
  leaves what follows unread. Every other body is rejected.
\<close>

definition template_decoder :: "string \<Rightarrow> jreq \<Rightarrow> string + jreq" where
  "template_decoder b post =
     (let opening = ''{'' @ [DQ] @ ''template'' @ [DQ] @ '':'' @ [DQ];
          rest = drop (length opening) b;
          t = takeWhile (\<lambda>c. c \<noteq> DQ) rest;
          after = drop (length t) rest
      in if HasPrefix b opening \<and> HasPrefix after (DQ # ''}'')
            \<and> list_all (\<lambda>c. c \<noteq> CHR 0x5C \<and> 32 \<le> (of_char c :: nat) \<and> (of_char c :: nat) < 127) t
         then Inr (post\<lparr>Template := t\<rparr>)
         else Inl ''invalid character'')"

text \<open>
  Surroundings to run the handler in: the echo engine for text templates and the engine
  above for HTML templates, no files, the decoder above for requests, a decoder of the
  \<^verbatim>\<open>data\<close> part that rejects every text, and maps visited in the order of their entries.
\<close>

definition echo_env :: "(string, string) env" where
  "echo_env = \<lparr>DebugHTTPRequests = False, EnableUnsafeFunctions = False,
               text_engine = echo_engine, html_engine = page_engine, files = no_files,
               TypeOf = (\<lambda>f. []),
               Decode_jreq = template_decoder,
               Unmarshal = (\<lambda>b. Inl ''invalid character''),
               DetectContentType = (\<lambda>b. ''application/octet-stream''),
               range_order = (\<lambda>m. m)\<rparr>"

definition form_part :: "string \<Rightarrow> string \<Rightarrow> string \<Rightarrow> next_part" where
  "form_part fname file data = NextPart \<lparr>FormName = fname, FileName = file, content = (data, None)\<rparr>"

definition multipart_request :: "next_part list \<Rightarrow> Request" where
  "multipart_request parts =
     \<lparr>Method = ''POST'', content_type = ''multipart/form-data; boundary=x'',
      DumpRequest = Inr [], MultipartReader = Inr parts, Body = []\<rparr>"

definition test_FnMap :: templeFnMap where
  "test_FnMap = FnMap (\<lambda>f. [])"

subsection \<open>Answers to malformed requests\<close>

text \<open>
  A stream of parts fails to read when \<^verbatim>\<open>NextPart\<close> returns an error or when the content
  of a part with one of the five form names cannot be read to its end.
\<close>

definition known_part :: "Part \<Rightarrow> bool" where
  "known_part p = (FormName p \<in> set [''template'', ''data'', ''templates'', ''outfile'', ''forcedl''])"

fun part_fails :: "next_part \<Rightarrow> bool" where
  "part_fails (NextPartError e) = True"
| "part_fails (NextPart p) = (known_part p \<and> snd (content p) \<noteq> None)"

definition multipart_read_fails :: "Request \<Rightarrow> bool" where
  "multipart_read_fails r =
     (case MultipartReader r of Inl e \<Rightarrow> True | Inr parts \<Rightarrow> list_ex part_fails parts)"

text \<open>What a part other than \<^verbatim>\<open>forcedl\<close> that was read to its end leaves in \<^verbatim>\<open>post\<close>.\<close>

definition store_part :: "('t, 'h) env \<Rightarrow> Part \<Rightarrow> jreq \<Rightarrow> jreq" where
  "store_part X part post =
     (if FormName part = ''template'' then post\<lparr>Template := fst (content part)\<rparr>
      else if FormName part = ''data'' then
        (case Unmarshal X (fst (content part)) of
           Inl e \<Rightarrow> post\<lparr>Data := JString (fst (content part))\<rparr>
         | Inr v \<Rightarrow> post\<lparr>Data := v\<rparr>)
      else if FormName part = ''templates'' \<and> length (fst (content part)) > 0
        then post\<lparr>Templates := put (FileName part) (fst (content part)) (Templates post)\<rparr>
      else if FormName part = ''outfile'' then post\<lparr>Outfile := fst (content part)\<rparr>
      else post)"

definition json_request :: "string \<Rightarrow> Request" where
  "json_request b =
     \<lparr>Method = ''POST'', content_type = ''application/json'',
      DumpRequest = Inr [], MultipartReader = Inl ''request Content-Type isn't multipart/form-data'',
      Body = b\<rparr>"

text \<open>
  The body \<^verbatim>\<open>{"template":"A"}}}\<close>: a JSON object and two closing braces after it, so not a
  JSON text.
\<close>

definition object_and_braces :: string where
  "object_and_braces = ''{'' @ [DQ] @ ''template'' @ [DQ] @ '':'' @ [DQ] @ ''A'' @ [DQ] @ ''}}}''"

subsection \<open>Which template the render path executes\<close>

text \<open>A request with an inline template and one named fragment, asking for a download.\<close>

definition fragment_request :: Request where
  "fragment_request =
     multipart_request [form_part ''template'' [] ''A'', form_part ''templates'' ''frag'' ''B'',
                        form_part ''forcedl'' [] ''true'']"

chapter \<open>Properties\<close>

section \<open>Function descriptor registry (package temple, FnMap)\<close>

subsection \<open>The capability boundary\<close>

lemma BuildFuncMap_Some_iff:
  "BuildFuncMap t b nm = Some f \<longleftrightarrow>
     (\<exists>info. t nm = Some info \<and> (\<not> Unsafe info \<or> b) \<and> f = fn_callable info)"
  by (auto simp: BuildFuncMap_def split: option.splits)

lemma BuildFuncMap_dom_unsafe: "dom (BuildFuncMap t True) = dom t"
  by (auto simp: BuildFuncMap_def dom_def split: option.splits)

lemma BuildFuncMap_unsafe_entry:
  "t nm = Some (entry ty f d True) \<Longrightarrow> nm \<in> dom t \<and> nm \<notin> dom (BuildFuncMap t False)"
  by (simp add: BuildFuncMap_def entry_def dom_def)

lemma FnMap_cmd: "FnMap ty ''cmd'' = Some (entry ty F_cmd ''execute a command on local host'' True)"
  by (simp add: FnMap_def FnMap_entries_def)

lemma FnMap_env: "FnMap ty ''env'' = Some (entry ty F_env
       ''get environment vars, optionally use a placeholder value $2'' True)"
  by (simp add: FnMap_def FnMap_entries_def)

lemma FnMap_http: "FnMap ty ''http'' = Some (entry ty F_http ''HEAD|GET|POST, url, body(raw), headers'' True)"
  by (simp add: FnMap_def FnMap_entries_def)

lemma FnMap_rawfile: "FnMap ty ''rawfile'' = Some (entry ty F_rawfile ''read raw bytes from a file'' True)"
  by (simp add: FnMap_def FnMap_entries_def)

lemma FnMap_textfile: "FnMap ty ''textfile'' = Some (entry ty F_textfile ''read a file as a string'' True)"
  by (simp add: FnMap_def FnMap_entries_def)

lemma FnMap_userinput: "FnMap ty ''userinput'' = Some (entry ty F_userinput
       ''get interactive user input (needs a terminal), if $2 bool is provided and true, term.ReadPassword is used. $1 is used as hint''
       True)"
  by (simp add: FnMap_def FnMap_entries_def)

lemma FnMap_writefile: "FnMap ty ''writefile'' = Some (entry ty F_writefile
       ''store data to a file (append if it already exists)'' True)"
  by (simp add: FnMap_def FnMap_entries_def)

text \<open>
  Claim C1. For any registry \<open>t\<close>, whatever \<open>BuildFuncMap t False\<close> contains comes from a
  descriptor whose \<open>Unsafe\<close> flag is false, and \<open>BuildFuncMap t True\<close> contains every
  registered nm with its callable. In the built-in registry \<open>FnMap\<close> the names cmd, env,
  http, rawfile, textfile, userinput and writefile are registered, and none of them is a key
  of the set built with \<open>addUnsafeFuncs = False\<close>.
\<close>

theorem BuildFuncMap_capability_boundary:
  "(\<forall>nm f. BuildFuncMap t False nm = Some f \<longrightarrow>
       (\<exists>info. t nm = Some info \<and> \<not> Unsafe info \<and> f = fn_callable info))
   \<and> (\<forall>nm info. t nm = Some info \<longrightarrow> BuildFuncMap t True nm = Some (fn_callable info))
   \<and> dom (BuildFuncMap t True) = dom t
   \<and> (''cmd'' \<in> dom (FnMap ty) \<and> ''cmd'' \<notin> dom (BuildFuncMap (FnMap ty) False))
   \<and> (''env'' \<in> dom (FnMap ty) \<and> ''env'' \<notin> dom (BuildFuncMap (FnMap ty) False))
   \<and> (''http'' \<in> dom (FnMap ty) \<and> ''http'' \<notin> dom (BuildFuncMap (FnMap ty) False))
   \<and> (''rawfile'' \<in> dom (FnMap ty) \<and> ''rawfile'' \<notin> dom (BuildFuncMap (FnMap ty) False))
   \<and> (''textfile'' \<in> dom (FnMap ty) \<and> ''textfile'' \<notin> dom (BuildFuncMap (FnMap ty) False))
   \<and> (''userinput'' \<in> dom (FnMap ty) \<and> ''userinput'' \<notin> dom (BuildFuncMap (FnMap ty) False))
   \<and> (''writefile'' \<in> dom (FnMap ty) \<and> ''writefile'' \<notin> dom (BuildFuncMap (FnMap ty) False))"
proof -
  have safe: "\<forall>nm f. BuildFuncMap t False nm = Some f \<longrightarrow>
       (\<exists>info. t nm = Some info \<and> \<not> Unsafe info \<and> f = fn_callable info)"
    by (simp add: BuildFuncMap_Some_iff)
  have all: "\<forall>nm info. t nm = Some info \<longrightarrow> BuildFuncMap t True nm = Some (fn_callable info)"
    by (simp add: BuildFuncMap_Some_iff)
  note d = BuildFuncMap_dom_unsafe [of t]
  note u1 = BuildFuncMap_unsafe_entry [of "FnMap ty" "''cmd''", OF FnMap_cmd]
  note u2 = BuildFuncMap_unsafe_entry [of "FnMap ty" "''env''", OF FnMap_env]
  note u3 = BuildFuncMap_unsafe_entry [of "FnMap ty" "''http''", OF FnMap_http]
  note u4 = BuildFuncMap_unsafe_entry [of "FnMap ty" "''rawfile''", OF FnMap_rawfile]
  note u5 = BuildFuncMap_unsafe_entry [of "FnMap ty" "''textfile''", OF FnMap_textfile]
  note u6 = BuildFuncMap_unsafe_entry [of "FnMap ty" "''userinput''", OF FnMap_userinput]
  note u7 = BuildFuncMap_unsafe_entry [of "FnMap ty" "''writefile''", OF FnMap_writefile]
  show ?thesis
    by (intro conjI safe all d u1 u2 u3 u4 u5 u6 u7)
qed

theorem BuildFuncMap_capability_boundary_witness:
  "FnMap (\<lambda>_. ''func'') ''hexenc'' = Some (entry (\<lambda>_. ''func'') F_hexenc ''hex encode'' False)
   \<and> BuildFuncMap (FnMap (\<lambda>_. ''func'')) False ''hexenc'' = Some F_hexenc
   \<and> BuildFuncMap (FnMap (\<lambda>_. ''func'')) True ''hexenc'' = Some F_hexenc
   \<and> ''cmd'' \<in> dom (BuildFuncMap (FnMap (\<lambda>_. ''func'')) True)
   \<and> ''cmd'' \<notin> dom (BuildFuncMap (FnMap (\<lambda>_. ''func'')) False)"
proof -
  have a: "FnMap (\<lambda>_. ''func'') ''hexenc'' = Some (entry (\<lambda>_. ''func'') F_hexenc ''hex encode'' False)"
    by (simp add: FnMap_def FnMap_entries_def)
  have b: "BuildFuncMap (FnMap (\<lambda>_. ''func'')) False ''hexenc'' = Some F_hexenc"
    by (simp add: BuildFuncMap_def a entry_def)
  note th = BuildFuncMap_capability_boundary [of "FnMap (\<lambda>_. ''func'')" "\<lambda>_. ''func''"]
  from th a have c: "BuildFuncMap (FnMap (\<lambda>_. ''func'')) True ''hexenc'' = Some F_hexenc"
    by (simp add: entry_def)
  from th have d: "''cmd'' \<in> dom (BuildFuncMap (FnMap (\<lambda>_. ''func'')) True)"
    by (elim conjE) (simp only:)
  from th have e: "''cmd'' \<notin> dom (BuildFuncMap (FnMap (\<lambda>_. ''func'')) False)"
    by (elim conjE)
  show ?thesis
    by (intro conjI a b c d e)
qed

section \<open>Helper functions (funcs.go)\<close>

subsection \<open>The predicate helper \<^verbatim>\<open>is\<close>\<close>

text \<open>
  Claim C10. When the predicate \<open>what\<close> begins with \<^verbatim>\<open>|\<close> and what follows the bar is none
  of u, upper, l, lower, i, int, f, float, f32, float32, b, bool, the \<^verbatim>\<open>default\<close> case
  returns \<^verbatim>\<open>s == what\<close>: the comparison is with the whole predicate, bar included.
\<close>

theorem is_unrecognized_predicate:
  assumes "HasPrefix what ''|''"
    and "TrimPrefix what ''|'' \<notin> {''u'', ''upper'', ''l'', ''lower'', ''i'', ''int'', ''f'', ''float'',
            ''f32'', ''float32'', ''b'', ''bool''}"
  shows "is L s what = (s = what)"
proof -
  let ?x = "TrimPrefix what ''|''"
  from assms(2) have ne: "?x \<noteq> ''u''" "?x \<noteq> ''upper''" "?x \<noteq> ''l''" "?x \<noteq> ''lower''"
    "?x \<noteq> ''i''" "?x \<noteq> ''int''" "?x \<noteq> ''f''" "?x \<noteq> ''float''"
    "?x \<noteq> ''f32''" "?x \<noteq> ''float32''" "?x \<noteq> ''b''" "?x \<noteq> ''bool''"
    by (simp_all only: insert_iff empty_iff de_Morgan_disj simp_thms)
  show ?thesis
    unfolding is_def Let_def using assms(1) ne by (simp only: if_True if_False simp_thms)
qed

theorem is_unrecognized_predicate_witness:
  "HasPrefix ''|x'' ''|''
   \<and> TrimPrefix ''|x'' ''|'' \<notin> {''u'', ''upper'', ''l'', ''lower'', ''i'', ''int'', ''f'', ''float'',
            ''f32'', ''float32'', ''b'', ''bool''}
   \<and> is ascii_lib ''|x'' ''|x'' \<and> \<not> is ascii_lib ''x'' ''|x''"
proof -
  have h1: "HasPrefix ''|x'' ''|''" by (simp add: HasPrefix_def)
  have h2: "TrimPrefix ''|x'' ''|'' \<notin> {''u'', ''upper'', ''l'', ''lower'', ''i'', ''int'', ''f'', ''float'',
            ''f32'', ''float32'', ''b'', ''bool''}"
    by (simp add: TrimPrefix_def HasPrefix_def)
  have a: "is ascii_lib ''|x'' ''|x''"
    using is_unrecognized_predicate [OF h1 h2, of ascii_lib "''|x''"] by simp
  have b: "\<not> is ascii_lib ''x'' ''|x''"
    using is_unrecognized_predicate [OF h1 h2, of ascii_lib "''x''"] by simp
  show ?thesis by (intro conjI h1 h2 a b)
qed

subsection \<open>Hexadecimal encoding (encoding/hex)\<close>

lemma hextable_all: "list_all (\<lambda>k. fromHexChar (hextable ! k) = Some k) [0..<16]"
  by code_simp

lemma hextable_nth: "k < 16 \<Longrightarrow> fromHexChar (hextable ! k) = Some k"
  using hextable_all by (simp add: list_all_iff)

lemma char_of_div_mod: "char_of ((of_char c :: nat) div 16 * 16 + of_char c mod 16) = c"
  by simp

lemma hex_Decode_loop_encode:
  "hex_Decode_loop (EncodeToString b) dst = (dst @ b, None)"
proof (induction b arbitrary: dst)
  case Nil
  then show ?case by (simp add: EncodeToString_def)
next
  case (Cons c b)
  have lt: "(of_char c :: nat) div 16 < 16"
    by (rule less_mult_imp_div_less) simp
  have enc: "EncodeToString (c # b)
      = hextable ! (of_char c div 16) # hextable ! (of_char c mod 16) # EncodeToString b"
    by (simp add: EncodeToString_def)
  show ?case
    unfolding enc using Cons.IH [of "dst @ [c]"]
    by (simp add: hextable_nth lt)
qed

lemma hex_Decode_encode: "hex_Decode (EncodeToString b) = (b, None)"
  by (simp add: hex_Decode_def hex_Decode_loop_encode)

lemma EncodeToString_length: "length (EncodeToString b) = 2 * length b"
  by (induction b) (simp_all add: EncodeToString_def)

lemma hexdec_String_empty: "hexdec L (String s) = Inr out \<Longrightarrow> out = []"
  by (auto simp: hexdec_def split: prod.splits option.splits)

lemma hexdec_String_encode: "hexdec L (String (EncodeToString b)) = Inr []"
  by (simp add: hexdec_def hex_DecodeString_def hex_Decode_encode)

lemma hexdec_Bytes_encode: "hexdec L (Bytes (EncodeToString b)) = Inr b"
  by (simp add: hexdec_def hex_Decode_encode EncodeToString_length)

text \<open>
  Claim C9. Whenever \<^verbatim>\<open>hexdec\<close> of a string returns without error, the result is the empty
  byte sequence, because the string case slices the decoded bytes at the unassigned count
  \<^verbatim>\<open>n = 0\<close>. So \<^verbatim>\<open>hexdec(hexenc(b))\<close> is empty for every byte sequence \<open>b\<close> (\<^verbatim>\<open>hexenc\<close>
  returns a string), while \<^verbatim>\<open>hexdec\<close> of the same hexadecimal text given as \<^verbatim>\<open>[]byte\<close>
  returns \<open>b\<close>; the two forms give different outputs exactly when \<open>b\<close> is not empty (for the
  empty \<open>b\<close> both are empty).
\<close>

theorem hexdec_string_branch_empty:
  "(\<forall>s out. hexdec L (String s) = Inr out \<longrightarrow> out = [])
   \<and> (\<forall>b. hexenc (Bytes b) = Inr (EncodeToString b)
          \<and> hexdec L (String (EncodeToString b)) = Inr [])
   \<and> (\<forall>b. hexdec L (Bytes (EncodeToString b)) = Inr b)
   \<and> (\<forall>b. hexdec L (String (EncodeToString b)) \<noteq> hexdec L (Bytes (EncodeToString b))
          \<longleftrightarrow> b \<noteq> [])"
proof (intro conjI allI)
  fix s out show "hexdec L (String s) = Inr out \<longrightarrow> out = []"
    using hexdec_String_empty by blast
next
  fix b show "hexenc (Bytes b) = Inr (EncodeToString b)" by (simp add: hexenc_def)
next
  fix b show "hexdec L (String (EncodeToString b)) = Inr []" by (rule hexdec_String_encode)
next
  fix b show "hexdec L (Bytes (EncodeToString b)) = Inr b" by (rule hexdec_Bytes_encode)
next
  fix b :: string
  show "hexdec L (String (EncodeToString b)) \<noteq> hexdec L (Bytes (EncodeToString b))
      \<longleftrightarrow> b \<noteq> []"
    by (auto simp: hexdec_String_encode hexdec_Bytes_encode)
qed

theorem hexdec_string_branch_empty_witness:
  "hexenc (Bytes ''AB'') = Inr ''4142''
   \<and> hexdec ascii_lib (String ''4142'') = Inr []
   \<and> hexdec ascii_lib (Bytes ''4142'') = Inr ''AB''
   \<and> hexdec ascii_lib (String ''4142'') \<noteq> hexdec ascii_lib (Bytes ''4142'')"
proof -
  have e: "EncodeToString ''AB'' = ''4142''"
    by (simp add: EncodeToString_def hextable_def)
  have ne: "''AB'' \<noteq> []" by simp
  note th = hexdec_string_branch_empty [of ascii_lib]
  note t1 = th [THEN conjunct2, THEN conjunct1, THEN spec, of "''AB''"]
  note t2 = th [THEN conjunct2, THEN conjunct2, THEN conjunct1, THEN spec, of "''AB''"]
  note t3 = th [THEN conjunct2, THEN conjunct2, THEN conjunct2, THEN spec, THEN iffD2, OF ne]
  show ?thesis using t1 t2 t3 unfolding e by simp
qed

subsection \<open>AES-GCM encryption and decryption\<close>

lemma encrypt_value:
  assumes "base64_DecodeString K = (key, None)"
    and "length key = 16 \<or> length key = 24 \<or> length key = 32"
    and "NonceSize \<le> length rnd"
  shows "encrypt A rnd (String P) K aad
           = Inr (Seal A key (take NonceSize rnd) P aad @ take NonceSize rnd)"
    and "encrypt A rnd (Bytes P) K aad
           = Inr (Seal A key (take NonceSize rnd) P aad @ take NonceSize rnd)"
  using assms by (simp_all add: encrypt_def NewCipher_def Random_def Let_def)

lemma decrypt_Bytes:
  assumes "base64_DecodeString K = (key, None)"
    and "length key = 16 \<or> length key = 24 \<or> length key = 32"
  shows "decrypt L A (Bytes c) K aad =
     (if length c < NonceSize then Inl io_ErrUnexpectedEOF
      else (case Open A key (drop (length c - NonceSize) c) (take (length c - NonceSize) c) aad of
              None \<Rightarrow> Inl (LibError ''cipher: message authentication failed'')
            | Some out \<Rightarrow> Inr out))"
  using assms by (simp add: decrypt_def NewCipher_def Let_def)

lemma decrypt_String:
  assumes "base64_DecodeString K = (key, None)"
    and "length key = 16 \<or> length key = 24 \<or> length key = 32"
  shows "decrypt L A (String s) K aad =
     (case b64dec L (String s) of
        Inl err \<Rightarrow> Inl err
      | Inr c \<Rightarrow> decrypt L A (Bytes c) K aad)"
  using assms by (simp add: decrypt_def NewCipher_def Let_def split: sum.splits)

lemma decrypt_sealed:
  assumes "aead_correct A"
    and "base64_DecodeString K = (key, None)"
    and "length key = 16 \<or> length key = 24 \<or> length key = 32"
    and "length iv = NonceSize"
  shows "decrypt L A (Bytes (Seal A key iv P aad @ iv)) K aad = Inr P"
proof -
  have o: "Open A key iv (Seal A key iv P aad) aad = Some P"
    using assms(1,3,4) unfolding aead_correct_def by blast
  show ?thesis
    unfolding decrypt_Bytes [OF assms(2,3)] using assms(4) o by simp
qed

lemma replicate_16: "replicate 16 c = [c, c, c, c, c, c, c, c, c, c, c, c, c, c, c, c]"
  by (simp add: numeral_eq_Suc)

lemma key16_decodes: "base64_DecodeString key16 = (replicate 16 (CHR 0x00), None)"
  unfolding replicate_16
  by (simp add: key16_def base64_DecodeString_def base64_Decode_def decodeMap_def
      is_newline_def LF_def CR_def padding_def after_padding_def skip_newlines_def
      quantum_bytes_def Let_def char_of_def)

text \<open>
  The claim C4 as stated fails: \<^verbatim>\<open>decrypt\<close> takes a string input as base64 text, so the
  one-byte string \<^verbatim>\<open>a\<close>, shorter than the nonce, fails with the base64 error and not with
  \<^verbatim>\<open>io.ErrUnexpectedEOF\<close>, under a valid 16-byte key.
\<close>

theorem decrypt_short_string_counterexample:
  "length ''a'' < NonceSize
   \<and> base64_DecodeString key16 = (replicate 16 (CHR 0x00), None)
   \<and> decrypt ascii_lib toy_gcm (String ''a'') key16 ''aad'' = Inl (base64_CorruptInputError 0)
   \<and> decrypt ascii_lib toy_gcm (String ''a'') key16 ''aad'' \<noteq> Inl io_ErrUnexpectedEOF"
proof -
  note k = key16_decodes
  have d: "decrypt ascii_lib toy_gcm (String ''a'') key16 ''aad'' = Inl (base64_CorruptInputError 0)"
    by (simp add: decrypt_def b64dec_def base64_Decode_def decodeMap_def)
  show ?thesis using k d by (simp add: NonceSize_def)
qed

text \<open>
  Claim C4, amended. Under a valid key (base64 text of 16, 24 or 32 bytes) and with the
  random source delivering a nonce, \<^verbatim>\<open>encrypt\<close> of a string or of bytes \<open>P\<close> returns the
  sealed message followed by the nonce, and \<^verbatim>\<open>decrypt\<close> of that byte sequence with the same
  key and additional data returns \<open>P\<close>, for a cipher that opens what it sealed. \<^verbatim>\<open>decrypt\<close>
  fails with \<^verbatim>\<open>io.ErrUnexpectedEOF\<close> whenever the ciphertext bytes are shorter than the
  nonce size, the ciphertext bytes being a \<^verbatim>\<open>[]byte\<close> input itself or the base64 decoding
  of a string input; a string input that is not base64 text fails with the decoding error.
\<close>

theorem encrypt_decrypt_roundtrip:
  assumes "aead_correct A"
    and "base64_DecodeString K = (key, None)"
    and "length key = 16 \<or> length key = 24 \<or> length key = 32"
    and "NonceSize \<le> length rnd"
  shows "encrypt A rnd (String P) K aad
           = Inr (Seal A key (take NonceSize rnd) P aad @ take NonceSize rnd)
   \<and> encrypt A rnd (Bytes P) K aad
           = Inr (Seal A key (take NonceSize rnd) P aad @ take NonceSize rnd)
   \<and> decrypt L A (Bytes (Seal A key (take NonceSize rnd) P aad @ take NonceSize rnd)) K aad = Inr P
   \<and> (\<forall>c. length c < NonceSize \<longrightarrow> decrypt L A (Bytes c) K aad = Inl io_ErrUnexpectedEOF)
   \<and> (\<forall>s c. b64dec L (String s) = Inr c \<and> length c < NonceSize
          \<longrightarrow> decrypt L A (String s) K aad = Inl io_ErrUnexpectedEOF)
   \<and> (\<forall>s e. b64dec L (String s) = Inl e \<longrightarrow> decrypt L A (String s) K aad = Inl e)"
proof (intro conjI allI impI)
  show "encrypt A rnd (String P) K aad
           = Inr (Seal A key (take NonceSize rnd) P aad @ take NonceSize rnd)"
    by (rule encrypt_value(1) [OF assms(2,3,4)])
  show "encrypt A rnd (Bytes P) K aad
           = Inr (Seal A key (take NonceSize rnd) P aad @ take NonceSize rnd)"
    by (rule encrypt_value(2) [OF assms(2,3,4)])
  have "length (take NonceSize rnd) = NonceSize" using assms(4) by simp
  then show "decrypt L A (Bytes (Seal A key (take NonceSize rnd) P aad @ take NonceSize rnd)) K aad
      = Inr P"
    by (rule decrypt_sealed [OF assms(1,2,3)])
next
  fix c :: string assume "length c < NonceSize"
  then show "decrypt L A (Bytes c) K aad = Inl io_ErrUnexpectedEOF"
    by (simp add: decrypt_Bytes [OF assms(2,3)])
next
  fix s c assume "b64dec L (String s) = Inr c \<and> length c < NonceSize"
  then show "decrypt L A (String s) K aad = Inl io_ErrUnexpectedEOF"
    by (simp add: decrypt_String [OF assms(2,3)] decrypt_Bytes [OF assms(2,3)])
next
  fix s e assume "b64dec L (String s) = Inl e"
  then show "decrypt L A (String s) K aad = Inl e"
    by (simp add: decrypt_String [OF assms(2,3)])
qed

theorem encrypt_decrypt_roundtrip_witness:
  "aead_correct toy_gcm
   \<and> base64_DecodeString key16 = (replicate 16 (CHR 0x00), None)
   \<and> NonceSize \<le> length ''0123456789abcdef''
   \<and> encrypt toy_gcm ''0123456789abcdef'' (String ''hi'') key16 ''aad''
       = Inr (''hi'' @ replicate 16 (CHR 0x00) @ ''0123456789ab'')
   \<and> decrypt ascii_lib toy_gcm (Bytes (''hi'' @ replicate 16 (CHR 0x00) @ ''0123456789ab'')) key16 ''aad''
       = Inr ''hi''
   \<and> decrypt ascii_lib toy_gcm (Bytes ''short'') key16 ''aad'' = Inl io_ErrUnexpectedEOF"
proof -
  have a: "aead_correct toy_gcm"
    by (simp add: aead_correct_def toy_gcm_def)
  note k = key16_decodes
  have l: "length (replicate 16 (CHR 0x00)) = 16 \<or> length (replicate 16 (CHR 0x00)) = 24
      \<or> length (replicate 16 (CHR 0x00)) = 32"
    by simp
  have r: "NonceSize \<le> length ''0123456789abcdef''"
    by (simp add: NonceSize_def)
  note th = encrypt_decrypt_roundtrip [OF a k l r, of "''hi''" "''aad''" ascii_lib]
  have sealed: "Seal toy_gcm (replicate 16 (CHR 0x00)) (take NonceSize ''0123456789abcdef'') ''hi'' ''aad''
      @ take NonceSize ''0123456789abcdef'' = ''hi'' @ replicate 16 (CHR 0x00) @ ''0123456789ab''"
    by (simp add: toy_gcm_def NonceSize_def)
  from th have e: "encrypt toy_gcm ''0123456789abcdef'' (String ''hi'') key16 ''aad''
       = Inr (''hi'' @ replicate 16 (CHR 0x00) @ ''0123456789ab'')"
    unfolding sealed by (rule conjunct1)
  from th have d: "decrypt ascii_lib toy_gcm
      (Bytes (''hi'' @ replicate 16 (CHR 0x00) @ ''0123456789ab'')) key16 ''aad'' = Inr ''hi''"
    unfolding sealed by (elim conjE)
  have sh: "length ''short'' < NonceSize" by (simp add: NonceSize_def)
  from th [THEN conjunct2, THEN conjunct2, THEN conjunct2, THEN conjunct1, THEN spec, THEN mp, OF sh]
  have f: "decrypt ascii_lib toy_gcm (Bytes ''short'') key16 ''aad'' = Inl io_ErrUnexpectedEOF" .
  show ?thesis by (intro conjI a k r e d f)
qed

section \<open>Template assembly (BuildTemplate, fload)\<close>

subsection \<open>Paths and files\<close>

lemma fload_loop_filter:
  "fload_loop 0 lines buf
     = buf @ concat (map (\<lambda>t. t @ [LF]) (filter (\<lambda>t. \<not> HasPrefix t ''#!'') lines))"
  by (induction lines arbitrary: buf) simp_all

text \<open>
  Claim C5 fails on the code. The claim is that only a leading shebang line is stripped and
  every other line is kept. Since \<^verbatim>\<open>i\<close> stays 0, the test \<^verbatim>\<open>i == 0 && HasPrefix(t, "#!")\<close>
  holds for every line that begins with \<^verbatim>\<open>#!\<close>: the file with the three lines
  \<^verbatim>\<open>one\<close>, \<^verbatim>\<open>#!two\<close>, \<^verbatim>\<open>three\<close> is loaded without its second line.
\<close>

theorem fload_strips_shebang_on_any_line:
  "fload shebang_fs ''t.tpl'' = (''one'' @ [LF] @ ''three'' @ [LF], None)"
  by (simp add: fload_def shebang_fs_def LF_def CR_def dropCR_def MaxScanTokenSize_def HasPrefix_def)

subsection \<open>What BuildTemplate returns\<close>

























section \<open>Usage tracking (track.go)\<close>

lemma trackUsage_stopped:
  "\<not> debugAllFunctions s \<Longrightarrow> trackUsage S now fn' False outp err args s = Returns s"
  by (simp add: trackUsage_def)

lemma trackUsage_started:
  assumes "debugAllFunctions s" and "started s"
  shows "\<exists>s'. trackUsage S now fn' a outp err args s = Returns s'
           \<and> fnTrackChan s' = fnTrackChan s
                @ [\<lparr>T = now, F = fn', Args = args, Output = S outp, Err = err\<rparr>]
           \<and> inflight s' = Some \<lparr>T = now, F = fn', Args = args, Output = S outp, Err = err\<rparr>
           \<and> Tracking s' = Tracking (usageDebugger_step s) + 1
           \<and> Tracking s' + int (length (logged s')) = Tracking s + int (length (logged s)) + 1
           \<and> debugAllFunctions s' \<and> started s'"
  using assms by (simp add: trackUsage_def Let_def usageDebugger_step_def split: option.splits)

lemma defer_trackUsage_stopped:
  assumes "body st = (res, Returns s)" and "\<not> debugAllFunctions s"
  shows "defer_trackUsage R fn' False outp args body st = (res, Returns s)"
  using assms by (simp add: defer_trackUsage_def trackUsage_stopped)

lemma defer_trackUsage_started:
  assumes "body st = (res, Returns s)" and "debugAllFunctions s" and "started s"
  shows "\<exists>s'. defer_trackUsage R fn' a outp args body st = (res, Returns s')
           \<and> fnTrackChan s' = fnTrackChan s
                @ [usage_record R (length (fnTrackChan s)) fn' (outp res) args]
           \<and> inflight s' = Some (usage_record R (length (fnTrackChan s)) fn' (outp res) args)
           \<and> Tracking s' = Tracking (usageDebugger_step s) + 1
           \<and> Tracking s' + int (length (logged s')) = Tracking s + int (length (logged s)) + 1
           \<and> debugAllFunctions s' \<and> started s'"
  using trackUsage_started [OF assms(2,3), of "Sprintf_v R" "Now R (length (fnTrackChan s))"
      fn' a "outp res" None args] assms(1)
  by (simp add: defer_trackUsage_def usage_record_def)

lemma simple_helper_stopped:
  "\<not> debugAllFunctions st \<Longrightarrow>
     defer_trackUsage R fn' False outp args (untracked res) st = (res, Returns st)"
  by (rule defer_trackUsage_stopped [where st = st and s = st]) (simp_all add: untracked_def)

lemma simple_helper_started:
  assumes "debugAllFunctions st" and "started st"
  shows "enqueues (defer_trackUsage R fn' False outp args (untracked res)) st
           [usage_record R (length (fnTrackChan st)) fn' (outp res) args]"
proof -
  have b: "untracked res st = (res, Returns st)" by (simp add: untracked_def)
  from defer_trackUsage_started [where body = "untracked res" and st = st, OF b assms,
      of R fn' False outp args] assms
  show ?thesis by (auto simp: enqueues_def)
qed

lemma nested_helper_stopped:
  assumes "\<not> debugAllFunctions st"
  shows "defer_trackUsage R fn' False outp args
           (\<lambda>st. (res, (case in' of String t \<Rightarrow> snd (b64dec_call R L (String t) st)
                                   | _ \<Rightarrow> Returns st))) st
         = (res, Returns st)"
proof (rule defer_trackUsage_stopped [where st = st and s = st, OF _ assms])
  show "(res, (case in' of String t \<Rightarrow> snd (b64dec_call R L (String t) st) | _ \<Rightarrow> Returns st))
      = (res, Returns st)"
    using assms by (cases in') (simp_all add: b64dec_call_def simple_helper_stopped)
qed

lemma nested_helper_started:
  assumes "debugAllFunctions st" and "started st"
  shows "enqueues (defer_trackUsage R fn' False outp args
           (\<lambda>st. (res, (case in' of String t \<Rightarrow> snd (b64dec_call R L (String t) st)
                                   | _ \<Rightarrow> Returns st)))) st
           ((case in' of
               String t \<Rightarrow> [usage_record R (length (fnTrackChan st)) ''b64dec''
                               (ptr_bytes (b64dec L in')) [Val in']]
             | _ \<Rightarrow> [])
            @ [usage_record R (length (fnTrackChan st) + (case in' of String t \<Rightarrow> 1 | _ \<Rightarrow> 0))
                 fn' (outp res) args])"
proof (cases "\<exists>t. in' = String t")
  case True
  then obtain t where t: "in' = String t" by blast
  from simple_helper_started [OF assms, of R "''b64dec''" ptr_bytes "[Val (String t)]" "b64dec L (String t)"]
  obtain s1 where
    b: "snd (b64dec_call R L (String t) st) = Returns s1"
    and c: "fnTrackChan s1 = fnTrackChan st
         @ [usage_record R (length (fnTrackChan st)) ''b64dec'' (ptr_bytes (b64dec L (String t))) [Val (String t)]]"
    and k: "Tracking s1 + int (length (logged s1)) = Tracking st + int (length (logged st)) + 1"
    and f: "debugAllFunctions s1" "started s1"
    using assms
    by (auto simp: enqueues_def b64dec_call_def split: outcome.splits)
  let ?body = "\<lambda>st. (res, (case in' of String t \<Rightarrow> snd (b64dec_call R L (String t) st)
                                   | _ \<Rightarrow> Returns st))"
  have bd: "?body st = (res, Returns s1)" by (simp add: t b)
  from defer_trackUsage_started [where body = ?body and st = st, OF bd f,
      of R fn' False outp args] c k assms
  show ?thesis
    unfolding enqueues_def by (auto simp: t)
next
  case False
  let ?body = "\<lambda>st. (res, (case in' of String t \<Rightarrow> snd (b64dec_call R L (String t) st)
                                   | _ \<Rightarrow> Returns st))"
  from False have bd: "?body st = (res, Returns st)" by (cases in') simp_all
  from False have n: "(case in' of String t \<Rightarrow> [usage_record R (length (fnTrackChan st)) ''b64dec''
                               (ptr_bytes (b64dec L in')) [Val in']] | _ \<Rightarrow> []) = []"
    and z: "(case in' of String t \<Rightarrow> 1 | _ \<Rightarrow> 0) = (0::nat)"
    by (cases in'; simp)+
  from defer_trackUsage_started [where body = ?body and st = st, OF bd assms,
      of R fn' False outp args] assms
  show ?thesis
    unfolding enqueues_def n z by auto
qed

text \<open>An invocation gives the result of the helper, whatever the tracker does.\<close>

lemma defer_trackUsage_result:
  "fst (defer_trackUsage R fn' a outp args body st) = fst (body st)"
  by (simp add: defer_trackUsage_def split: prod.splits outcome.splits)

lemma helper_call_results:
  "fst (hexenc_call R in' st) = hexenc in'"
  "fst (hexdec_call R L in' st) = hexdec L in'"
  "fst (b64dec_call R L in' st) = b64dec L in'"
  "fst (encrypt_call R A rnd in' b64key aad st) = encrypt A rnd in' b64key aad"
  "fst (decrypt_call R L A in' b64key aad st) = decrypt L A in' b64key aad"
  "fst (gunzip_call R Z L in' st) = gunzip Z L in'"
  by (simp_all add: hexenc_call_def hexdec_call_def b64dec_call_def encrypt_call_def
      decrypt_call_def gunzip_call_def defer_trackUsage_result untracked_def)

text \<open>
  The claim C6 as stated fails at the level of the helpers. With tracking started, an
  invocation of \<^verbatim>\<open>decrypt\<close> on a string sends two records, the one of the \<^verbatim>\<open>b64dec\<close> that
  it calls and its own, where the claim says exactly one for every helper that does not
  pass \<^verbatim>\<open>alwaysTrack\<close>; and an invocation of \<^verbatim>\<open>is\<close>, which contains no call of
  \<^verbatim>\<open>trackUsage\<close>, sends none.
\<close>

theorem helper_records_counterexample:
  "debugAllFunctions (StartTracking (init_tracker :: go_value tracker))
   \<and> started (StartTracking (init_tracker :: go_value tracker))
   \<and> fnTrackChan (StartTracking (init_tracker :: go_value tracker)) = []
   \<and> map F (fnTrackChan (state_of (snd (decrypt_call test_runtime ascii_lib toy_gcm (String ''a'')
                                          key16 ''aad'' (StartTracking init_tracker)))))
       = [''b64dec'', ''decrypt'']
   \<and> snd (is_call ascii_lib ''a'' ''|lower'' (StartTracking init_tracker))
       = Returns (StartTracking init_tracker)"
  by (simp add: decrypt_call_def b64dec_call_def is_call_def defer_trackUsage_def untracked_def
      trackUsage_def StartTracking_def init_tracker_def usageDebugger_step_def Let_def)

text \<open>
  Claim C6, amended. A call of \<^verbatim>\<open>trackUsage\<close> puts a record on the channel if and only if
  the flag \<^verbatim>\<open>debugAllFunctions\<close> is true or \<^verbatim>\<open>alwaysTrack\<close> is true, and then exactly one;
  with both false it returns and changes nothing. \<^verbatim>\<open>StartTracking\<close> sets the flag and
  starts the consumer, \<^verbatim>\<open>StopTracking\<close> clears the flag and leaves the consumer running.
  A helper that defers \<^verbatim>\<open>trackUsage\<close> without \<^verbatim>\<open>alwaysTrack\<close> adds nothing to what its body
  did when the flag is false at its end; with the flag set and the consumer running it
  sends, after what its body sent, exactly one record of its own, with one
  \<^verbatim>\<open>Tracking.Add(1)\<close>, and returns to its caller when the record was received. So a
  helper whose body calls no tracked helper sends no record with tracking stopped and
  exactly one with tracking started. With
  tracking stopped, an invocation of \<^verbatim>\<open>hexenc\<close>, \<^verbatim>\<open>hexdec\<close>, \<^verbatim>\<open>b64dec\<close>, \<^verbatim>\<open>encrypt\<close>,
  \<^verbatim>\<open>decrypt\<close> or \<^verbatim>\<open>_gunzip\<close> sends no record. With tracking started, an invocation of
  \<^verbatim>\<open>hexenc\<close>, \<^verbatim>\<open>hexdec\<close>, \<^verbatim>\<open>b64dec\<close> or \<^verbatim>\<open>encrypt\<close> sends exactly one record before it
  returns; an invocation of \<^verbatim>\<open>decrypt\<close> or \<^verbatim>\<open>_gunzip\<close> sends its one record, and before it
  the record of \<^verbatim>\<open>b64dec\<close> when the input is a string. An invocation of \<^verbatim>\<open>is\<close> sends no
  record in any state.
\<close>

theorem helper_invocation_records:
  fixes st :: "go_value tracker" and body :: "'a call"
  shows
   "fnTrackChan (state_of (trackUsage S now fn' alwaysTrack output err args st))
      = fnTrackChan st @
        (if debugAllFunctions st \<or> alwaysTrack
         then [\<lparr>T = now, F = fn', Args = args, Output = S output, Err = err\<rparr>] else [])
    \<and> (\<not> debugAllFunctions st \<and> \<not> alwaysTrack \<longrightarrow>
         trackUsage S now fn' alwaysTrack output err args st = Returns st)
    \<and> debugAllFunctions (StartTracking st) \<and> started (StartTracking st)
    \<and> started (StopTracking (StartTracking st)) \<and> \<not> debugAllFunctions (StopTracking st)
    \<and> (\<forall>s1. body st = (res, Returns s1) \<and> \<not> debugAllFunctions s1 \<longrightarrow>
           defer_trackUsage R fn' False outp args body st = (res, Returns s1))
    \<and> (\<forall>s1. body st = (res, Returns s1) \<and> debugAllFunctions s1 \<and> started s1 \<longrightarrow>
           (\<exists>s2. defer_trackUsage R fn' False outp args body st = (res, Returns s2)
              \<and> fnTrackChan s2
                  = fnTrackChan s1 @ [usage_record R (length (fnTrackChan s1)) fn' (outp res) args]
              \<and> inflight s2 = Some (usage_record R (length (fnTrackChan s1)) fn' (outp res) args)
              \<and> Tracking s2 = Tracking (usageDebugger_step s1) + 1
              \<and> debugAllFunctions s2 \<and> started s2))
    \<and> (\<not> debugAllFunctions st \<longrightarrow>
           defer_trackUsage R fn' False outp args (untracked res) st = (res, Returns st))
    \<and> (debugAllFunctions st \<and> started st \<longrightarrow>
           enqueues (defer_trackUsage R fn' False outp args (untracked res)) st
             [usage_record R (length (fnTrackChan st)) fn' (outp res) args])
    \<and> (\<not> debugAllFunctions st \<longrightarrow>
           hexenc_call R in' st = (hexenc in', Returns st)
           \<and> hexdec_call R L in' st = (hexdec L in', Returns st)
           \<and> b64dec_call R L in' st = (b64dec L in', Returns st)
           \<and> encrypt_call R A rnd in' b64key aad st = (encrypt A rnd in' b64key aad, Returns st)
           \<and> decrypt_call R L A in' b64key aad st = (decrypt L A in' b64key aad, Returns st)
           \<and> gunzip_call R Z L in' st = (gunzip Z L in', Returns st))
    \<and> (debugAllFunctions st \<and> started st \<longrightarrow>
           enqueues (hexenc_call R in') st
             [usage_record R (length (fnTrackChan st)) ''hexenc'' (ptr_string (hexenc in')) [Val in']]
           \<and> enqueues (hexdec_call R L in') st
             [usage_record R (length (fnTrackChan st)) ''hexdec'' (ptr_bytes (hexdec L in')) [Val in']]
           \<and> enqueues (b64dec_call R L in') st
             [usage_record R (length (fnTrackChan st)) ''b64dec'' (ptr_bytes (b64dec L in')) [Val in']]
           \<and> enqueues (encrypt_call R A rnd in' b64key aad) st
             [usage_record R (length (fnTrackChan st)) ''encrypt''
                (ptr_bytes (encrypt A rnd in' b64key aad))
                [Val in', Val (String b64key), Val (String aad)]]
           \<and> enqueues (decrypt_call R L A in' b64key aad) st
             ((case in' of
                 String t \<Rightarrow> [usage_record R (length (fnTrackChan st)) ''b64dec''
                                 (ptr_bytes (b64dec L in')) [Val in']]
               | _ \<Rightarrow> [])
              @ [usage_record R (length (fnTrackChan st) + (case in' of String t \<Rightarrow> 1 | _ \<Rightarrow> 0))
                   ''decrypt'' (ptr_bytes (decrypt L A in' b64key aad))
                   [Val in', Val (String b64key), Val (String aad)]])
           \<and> enqueues (gunzip_call R Z L in') st
             ((case in' of
                 String t \<Rightarrow> [usage_record R (length (fnTrackChan st)) ''b64dec''
                                 (ptr_bytes (b64dec L in')) [Val in']]
               | _ \<Rightarrow> [])
              @ [usage_record R (length (fnTrackChan st) + (case in' of String t \<Rightarrow> 1 | _ \<Rightarrow> 0))
                   ''gunzip'' (ptr_bytes (gunzip Z L in')) [Val in']]))
    \<and> is_call L str what st = (is L str what, Returns st)"
proof (intro conjI impI allI)
  show "fnTrackChan (state_of (trackUsage S now fn' alwaysTrack output err args st))
      = fnTrackChan st @
        (if debugAllFunctions st \<or> alwaysTrack
         then [\<lparr>T = now, F = fn', Args = args, Output = S output, Err = err\<rparr>] else [])"
    by (simp add: trackUsage_def Let_def usageDebugger_step_def split: option.splits)
next
  assume "\<not> debugAllFunctions st \<and> \<not> alwaysTrack"
  then show "trackUsage S now fn' alwaysTrack output err args st = Returns st"
    by (simp add: trackUsage_def)
next
  show "debugAllFunctions (StartTracking st)" "started (StartTracking st)"
    "started (StopTracking (StartTracking st))" "\<not> debugAllFunctions (StopTracking st)"
    by (simp_all add: StartTracking_def StopTracking_def)
next
  fix s1
  assume "body st = (res, Returns s1) \<and> \<not> debugAllFunctions s1"
  then show "defer_trackUsage R fn' False outp args body st = (res, Returns s1)"
    by (simp add: defer_trackUsage_stopped [where st = st and s = s1])
next
  fix s1
  assume h: "body st = (res, Returns s1) \<and> debugAllFunctions s1 \<and> started s1"
  from defer_trackUsage_started [where body = body and st = st and s = s1,
      OF h [THEN conjunct1] h [THEN conjunct2, THEN conjunct1] h [THEN conjunct2, THEN conjunct2],
      of R fn' False outp args]
  show "\<exists>s2. defer_trackUsage R fn' False outp args body st = (res, Returns s2)
              \<and> fnTrackChan s2
                  = fnTrackChan s1 @ [usage_record R (length (fnTrackChan s1)) fn' (outp res) args]
              \<and> inflight s2 = Some (usage_record R (length (fnTrackChan s1)) fn' (outp res) args)
              \<and> Tracking s2 = Tracking (usageDebugger_step s1) + 1
              \<and> debugAllFunctions s2 \<and> started s2"
    by blast
next
  assume "\<not> debugAllFunctions st"
  then show "defer_trackUsage R fn' False outp args (untracked res) st = (res, Returns st)"
    by (rule simple_helper_stopped)
next
  assume "debugAllFunctions st \<and> started st"
  then show "enqueues (defer_trackUsage R fn' False outp args (untracked res)) st
      [usage_record R (length (fnTrackChan st)) fn' (outp res) args]"
    by (simp add: simple_helper_started)
next
  assume n: "\<not> debugAllFunctions st"
  show "hexenc_call R in' st = (hexenc in', Returns st)"
    by (simp add: hexenc_call_def simple_helper_stopped [OF n])
  show "hexdec_call R L in' st = (hexdec L in', Returns st)"
    by (simp add: hexdec_call_def simple_helper_stopped [OF n])
  show "b64dec_call R L in' st = (b64dec L in', Returns st)"
    by (simp add: b64dec_call_def simple_helper_stopped [OF n])
  show "encrypt_call R A rnd in' b64key aad st = (encrypt A rnd in' b64key aad, Returns st)"
    by (simp add: encrypt_call_def simple_helper_stopped [OF n])
  show "decrypt_call R L A in' b64key aad st = (decrypt L A in' b64key aad, Returns st)"
    by (simp add: decrypt_call_def nested_helper_stopped [OF n])
  show "gunzip_call R Z L in' st = (gunzip Z L in', Returns st)"
    by (simp add: gunzip_call_def nested_helper_stopped [OF n])
next
  assume h: "debugAllFunctions st \<and> started st"
  then have f: "debugAllFunctions st" and c: "started st" by simp_all
  show "enqueues (hexenc_call R in') st
      [usage_record R (length (fnTrackChan st)) ''hexenc'' (ptr_string (hexenc in')) [Val in']]"
    unfolding hexenc_call_def by (rule simple_helper_started [OF f c])
  show "enqueues (hexdec_call R L in') st
      [usage_record R (length (fnTrackChan st)) ''hexdec'' (ptr_bytes (hexdec L in')) [Val in']]"
    unfolding hexdec_call_def by (rule simple_helper_started [OF f c])
  show "enqueues (b64dec_call R L in') st
      [usage_record R (length (fnTrackChan st)) ''b64dec'' (ptr_bytes (b64dec L in')) [Val in']]"
    unfolding b64dec_call_def by (rule simple_helper_started [OF f c])
  show "enqueues (encrypt_call R A rnd in' b64key aad) st
      [usage_record R (length (fnTrackChan st)) ''encrypt''
         (ptr_bytes (encrypt A rnd in' b64key aad))
         [Val in', Val (String b64key), Val (String aad)]]"
    unfolding encrypt_call_def by (rule simple_helper_started [OF f c])
  show "enqueues (decrypt_call R L A in' b64key aad) st
      ((case in' of
          String t \<Rightarrow> [usage_record R (length (fnTrackChan st)) ''b64dec''
                          (ptr_bytes (b64dec L in')) [Val in']]
        | _ \<Rightarrow> [])
       @ [usage_record R (length (fnTrackChan st) + (case in' of String t \<Rightarrow> 1 | _ \<Rightarrow> 0))
            ''decrypt'' (ptr_bytes (decrypt L A in' b64key aad))
            [Val in', Val (String b64key), Val (String aad)]])"
    unfolding decrypt_call_def by (rule nested_helper_started [OF f c])
  show "enqueues (gunzip_call R Z L in') st
      ((case in' of
          String t \<Rightarrow> [usage_record R (length (fnTrackChan st)) ''b64dec''
                          (ptr_bytes (b64dec L in')) [Val in']]
        | _ \<Rightarrow> [])
       @ [usage_record R (length (fnTrackChan st) + (case in' of String t \<Rightarrow> 1 | _ \<Rightarrow> 0))
            ''gunzip'' (ptr_bytes (gunzip Z L in')) [Val in']])"
    unfolding gunzip_call_def by (rule nested_helper_started [OF f c])
next
  show "is_call L str what st = (is L str what, Returns st)"
    by (simp add: is_call_def untracked_def)
qed

theorem helper_invocation_records_witness:
  "\<not> debugAllFunctions (init_tracker :: go_value tracker)
   \<and> hexdec_call test_runtime ascii_lib (String ''6869'') init_tracker = (Inr [], Returns init_tracker)
   \<and> decrypt_call test_runtime ascii_lib toy_gcm (String ''a'') key16 ''aad'' init_tracker
       = (Inl (base64_CorruptInputError 0), Returns init_tracker)
   \<and> debugAllFunctions (StartTracking (init_tracker :: go_value tracker))
   \<and> started (StartTracking (init_tracker :: go_value tracker))
   \<and> enqueues (hexdec_call test_runtime ascii_lib (String ''6869'')) (StartTracking init_tracker)
        [\<lparr>T = 0, F = ''hexdec'', Args = [Val (String ''6869'')], Output = ''&'', Err = None\<rparr>]
   \<and> enqueues (decrypt_call test_runtime ascii_lib toy_gcm (Bytes ''a'') key16 ''aad'')
        (StartTracking init_tracker)
        [\<lparr>T = 0, F = ''decrypt'',
          Args = [Val (Bytes ''a''), Val (String key16), Val (String ''aad'')],
          Output = ''&'', Err = None\<rparr>]
   \<and> enqueues (decrypt_call test_runtime ascii_lib toy_gcm (String ''a'') key16 ''aad'')
        (StartTracking init_tracker)
        [\<lparr>T = 0, F = ''b64dec'', Args = [Val (String ''a'')], Output = ''&'', Err = None\<rparr>,
         \<lparr>T = 1, F = ''decrypt'',
          Args = [Val (String ''a''), Val (String key16), Val (String ''aad'')],
          Output = ''&'', Err = None\<rparr>]"
proof -
  let ?st0 = "init_tracker :: go_value tracker"
  let ?st1 = "StartTracking (init_tracker :: go_value tracker)"
  have n: "\<not> debugAllFunctions ?st0" by (simp add: init_tracker_def)
  have stopped: "hexdec_call test_runtime ascii_lib inp ?st0 = (hexdec ascii_lib inp, Returns ?st0)
      \<and> decrypt_call test_runtime ascii_lib toy_gcm inp key16 ''aad'' ?st0
          = (decrypt ascii_lib toy_gcm inp key16 ''aad'', Returns ?st0)" for inp
    using helper_invocation_records [where st = ?st0 and R = test_runtime and L = ascii_lib
      and A = toy_gcm and b64key = key16 and aad = "''aad''" and in' = inp,
      THEN conjunct2, THEN conjunct2, THEN conjunct2, THEN conjunct2, THEN conjunct2,
      THEN conjunct2, THEN conjunct2, THEN conjunct2, THEN conjunct2, THEN conjunct2,
      THEN conjunct1, THEN mp, OF n]
    by simp
  have h: "hexdec ascii_lib (String ''6869'') = Inr []"
    by (simp add: hexdec_def hex_DecodeString_def hex_Decode_def fromHexChar_def split: prod.splits)
  have k: "base64_DecodeString key16 = (replicate 16 (CHR 0x00), None)" by (rule key16_decodes)
  have d1: "b64dec ascii_lib (String ''a'') = Inl (base64_CorruptInputError 0)"
    by (simp add: b64dec_def base64_Decode_def decodeMap_def)
  have d2: "decrypt ascii_lib toy_gcm (String ''a'') key16 ''aad'' = Inl (base64_CorruptInputError 0)"
    by (simp add: decrypt_def d1)
  have d3: "decrypt ascii_lib toy_gcm (Bytes ''a'') key16 ''aad'' = Inl io_ErrUnexpectedEOF"
    by (simp add: decrypt_def k NewCipher_def NonceSize_def)
  from stopped [of "String ''6869''"]
  have a: "hexdec_call test_runtime ascii_lib (String ''6869'') ?st0 = (Inr [], Returns ?st0)"
    by (simp add: h)
  from stopped [of "String ''a''"]
  have b: "decrypt_call test_runtime ascii_lib toy_gcm (String ''a'') key16 ''aad'' ?st0
      = (Inl (base64_CorruptInputError 0), Returns ?st0)"
    by (simp add: d2)
  have s: "debugAllFunctions ?st1 \<and> started ?st1"
    by (simp add: StartTracking_def)
  have e: "fnTrackChan ?st1 = []" by (simp add: StartTracking_def init_tracker_def)
  have started: "enqueues (hexdec_call test_runtime ascii_lib inp) ?st1
        [usage_record test_runtime (length (fnTrackChan ?st1)) ''hexdec''
           (ptr_bytes (hexdec ascii_lib inp)) [Val inp]]
      \<and> enqueues (decrypt_call test_runtime ascii_lib toy_gcm inp key16 ''aad'') ?st1
        ((case inp of
            String t \<Rightarrow> [usage_record test_runtime (length (fnTrackChan ?st1)) ''b64dec''
                            (ptr_bytes (b64dec ascii_lib inp)) [Val inp]]
          | _ \<Rightarrow> [])
         @ [usage_record test_runtime
              (length (fnTrackChan ?st1) + (case inp of String t \<Rightarrow> 1 | _ \<Rightarrow> 0))
              ''decrypt'' (ptr_bytes (decrypt ascii_lib toy_gcm inp key16 ''aad''))
              [Val inp, Val (String key16), Val (String ''aad'')]])" for inp
    using helper_invocation_records [where st = ?st1 and R = test_runtime and L = ascii_lib
      and A = toy_gcm and b64key = key16 and aad = "''aad''" and in' = inp,
      THEN conjunct2, THEN conjunct2, THEN conjunct2, THEN conjunct2, THEN conjunct2,
      THEN conjunct2, THEN conjunct2, THEN conjunct2, THEN conjunct2, THEN conjunct2,
      THEN conjunct2, THEN conjunct1, THEN mp, OF s]
    by blast
  from started [of "String ''6869''"]
  have c: "enqueues (hexdec_call test_runtime ascii_lib (String ''6869'')) ?st1
        [\<lparr>T = 0, F = ''hexdec'', Args = [Val (String ''6869'')], Output = ''&'', Err = None\<rparr>]"
    by (simp add: e h usage_record_def test_runtime_def ptr_bytes_def)
  from started [of "Bytes ''a''"]
  have f: "enqueues (decrypt_call test_runtime ascii_lib toy_gcm (Bytes ''a'') key16 ''aad'') ?st1
        [\<lparr>T = 0, F = ''decrypt'',
          Args = [Val (Bytes ''a''), Val (String key16), Val (String ''aad'')],
          Output = ''&'', Err = None\<rparr>]"
    by (simp add: e d3 usage_record_def test_runtime_def ptr_bytes_def)
  from started [of "String ''a''"]
  have g: "enqueues (decrypt_call test_runtime ascii_lib toy_gcm (String ''a'') key16 ''aad'') ?st1
        [\<lparr>T = 0, F = ''b64dec'', Args = [Val (String ''a'')], Output = ''&'', Err = None\<rparr>,
         \<lparr>T = 1, F = ''decrypt'',
          Args = [Val (String ''a''), Val (String key16), Val (String ''aad'')],
          Output = ''&'', Err = None\<rparr>]"
    by (simp add: e d1 d2 usage_record_def test_runtime_def ptr_bytes_def)
  from n a b s c f g show ?thesis by blast
qed

section \<open>The render service (server.go, RenderServer)\<close>

subsection \<open>Answers to malformed requests\<close>

lemma map_of_put: "map_of (put k v l) = (map_of l)(k \<mapsto> v)"
  by (induction l) (auto simp: fun_eq_iff)

lemma http_Error_sel:
  "Status (http_Error w msg code) = code" "Body_written (http_Error w msg code) = msg"
  by (simp_all add: http_Error_def)

lemma read_parts_fails:
  assumes "part_fails (NextPart part)"
  shows "read_parts X w (NextPart part # rest) post
           = Inl (http_Error w (ErrorLine (ReadError (the (snd (content part))))) 500)"
proof -
  from assms obtain e where e: "snd (content part) = Some e" and k: "known_part part" by auto
  from k consider "FormName part = ''template''" | "FormName part = ''data''"
    | "FormName part = ''templates''" | "FormName part = ''outfile''" | "FormName part = ''forcedl''"
    by (auto simp: known_part_def)
  then show ?thesis
    by cases (simp_all add: e Let_def read_parts.simps)
qed

lemma read_parts_forcedl:
  assumes "\<not> part_fails (NextPart part)" and "FormName part = ''forcedl''"
  shows "read_parts X w (NextPart part # rest) post =
     (case ParseBool (fst (content part)) of
        Inl err \<Rightarrow> Inl (http_Error w (ErrorLine err) 400)
      | Inr b \<Rightarrow> read_parts X w rest (post\<lparr>ForceDL := b\<rparr>))"
proof -
  from assms have "snd (content part) = None" by (simp add: known_part_def)
  with assms(2) show ?thesis by (simp add: Let_def read_parts.simps)
qed

lemma read_parts_store:
  assumes "\<not> part_fails (NextPart part)" and "FormName part \<noteq> ''forcedl''"
  shows "read_parts X w (NextPart part # rest) post = read_parts X w rest (store_part X part post)"
proof (cases "known_part part")
  case True
  with assms(1) have n: "snd (content part) = None" by simp
  from True assms(2) consider "FormName part = ''template''" | "FormName part = ''data''"
    | "FormName part = ''templates''" | "FormName part = ''outfile''"
    by (auto simp: known_part_def)
  then show ?thesis
    by cases (simp_all add: n Let_def store_part_def read_parts.simps split: sum.splits)
next
  case False
  then show ?thesis
    by (simp add: known_part_def Let_def store_part_def read_parts.simps)
qed

lemma read_parts_Inl:
  "read_parts X w parts post = Inl resp \<Longrightarrow>
     (Status resp = 500 \<and> list_ex part_fails parts)
     \<or> (Status resp = 400 \<and> (\<exists>err. Body_written resp = ErrorLine err))"
proof (induction parts arbitrary: post)
  case Nil
  then show ?case by simp
next
  case (Cons x rest)
  show ?case
  proof (cases x)
    case (NextPartError e)
    with Cons.prems show ?thesis by (auto simp: http_Error_sel)
  next
    case (NextPart part)
    consider (fails) "part_fails (NextPart part)"
      | (forcedl) "\<not> part_fails (NextPart part)" "FormName part = ''forcedl''"
      | (store) "\<not> part_fails (NextPart part)" "FormName part \<noteq> ''forcedl''"
      by blast
    then show ?thesis
    proof cases
      case fails
      from Cons.prems have "resp = http_Error w (ErrorLine (ReadError (the (snd (content part))))) 500"
        unfolding NextPart read_parts_fails [OF fails] by simp
      with fails NextPart show ?thesis by (simp add: http_Error_sel)
    next
      case forcedl
      note eq = read_parts_forcedl [OF forcedl, of X w rest post]
      show ?thesis
      proof (cases "ParseBool (fst (content part))")
        case (Inl err)
        with Cons.prems eq NextPart have "resp = http_Error w (ErrorLine err) 400" by simp
        then show ?thesis by (simp add: http_Error_sel)
      next
        case (Inr b)
        with Cons.prems eq NextPart have "read_parts X w rest (post\<lparr>ForceDL := b\<rparr>) = Inl resp"
          by simp
        from Cons.IH [OF this] show ?thesis by auto
      qed
    next
      case store
      from Cons.prems have "read_parts X w rest (store_part X part post) = Inl resp"
        unfolding NextPart read_parts_store [OF store] .
      from Cons.IH [OF this] show ?thesis by auto
    qed
  qed
qed

lemma read_parts_append:
  "read_parts X w (pre @ xs) post =
     (case read_parts X w pre post of Inl resp \<Rightarrow> Inl resp | Inr post' \<Rightarrow> read_parts X w xs post')"
proof (induction pre arbitrary: post)
  case Nil
  then show ?case by simp
next
  case (Cons x pre)
  show ?case
  proof (cases x)
    case (NextPartError e)
    then show ?thesis by simp
  next
    case (NextPart part)
    consider (fails) "part_fails (NextPart part)"
      | (forcedl) "\<not> part_fails (NextPart part)" "FormName part = ''forcedl''"
      | (store) "\<not> part_fails (NextPart part)" "FormName part \<noteq> ''forcedl''"
      by blast
    then show ?thesis
    proof cases
      case fails
      show ?thesis
        unfolding NextPart append_Cons read_parts_fails [OF fails] by simp
    next
      case forcedl
      show ?thesis
        unfolding NextPart append_Cons read_parts_forcedl [OF forcedl]
        by (simp add: Cons.IH split: sum.splits)
    next
      case store
      show ?thesis
        unfolding NextPart append_Cons read_parts_store [OF store]
        by (simp add: Cons.IH)
    qed
  qed
qed

lemma RenderServer_POST:
  assumes "Method r = ''POST''" and "DebugHTTPRequests X \<longrightarrow> isOK (DumpRequest r)"
  shows "RenderServer X fnMap r =
     (case parse_request X new_response r of
        Inl resp \<Rightarrow> resp
      | Inr post \<Rightarrow>
          (case BuildTemplate (text_engine X) (files X) fnMap (EnableUnsafeFunctions X) ''post''
                  (Template post) (range_order X (Templates post)) [] of
             Inl err \<Rightarrow> json_error new_response 400 err
           | Inr (tpl, all) \<Rightarrow>
               (case Execute (text_engine X) tpl (Data post) of
                  Inl err \<Rightarrow> json_error new_response 500 err
                | Inr buf \<Rightarrow> respond X new_response post (is_multipart r) buf)))"
  using assms by (auto simp: RenderServer_def Let_def)

lemma parse_request_json_error:
  assumes "\<not> is_multipart r" and "Decode_jreq X (Body r) empty_post = Inl e"
  shows "parse_request X new_response r
           = Inl \<lparr>Status = 400, Header = [], Body_written = JsonResp \<lparr>status = 400, Error = LibError e\<rparr>\<rparr>"
  using assms by (simp add: parse_request_def json_error_def new_response_def)

lemma parse_request_reader_error:
  assumes "is_multipart r" and "MultipartReader r = Inl e"
  shows "parse_request X w r = Inl (http_Error w (ErrorLine (LibError e)) 500)"
  using assms by (simp add: parse_request_def)

lemma parse_request_NextPart_error:
  assumes "is_multipart r" and "MultipartReader r = Inr (pre @ NextPartError e # rest)"
    and "read_parts X w pre empty_post = Inr post"
  shows "parse_request X w r = Inl (http_Error w (ErrorLine (LibError e)) 500)"
  using assms by (simp add: parse_request_def read_parts_append)

lemma parse_request_forcedl_error:
  assumes "is_multipart r" and "MultipartReader r = Inr (pre @ NextPart part # rest)"
    and "read_parts X w pre empty_post = Inr post"
    and "FormName part = ''forcedl''" and "snd (content part) = None"
    and "ParseBool (fst (content part)) = Inl err"
  shows "parse_request X w r = Inl (http_Error w (ErrorLine err) 400)"
proof -
  from assms(5) have nf: "\<not> part_fails (NextPart part)" by simp
  show ?thesis
    using assms(1,2,3,6)
    by (simp add: parse_request_def read_parts_append read_parts_forcedl [OF nf assms(4)])
qed

lemma parse_request_Inl_500:
  assumes "parse_request X w r = Inl resp" and "Status resp \<ge> 500"
  shows "is_multipart r \<and> multipart_read_fails r"
proof (cases "is_multipart r")
  case False
  with assms show ?thesis
    by (auto simp: parse_request_def json_error_def split: sum.splits)
next
  case True
  show ?thesis
  proof (cases "MultipartReader r")
    case (Inl e)
    with True show ?thesis by (simp add: multipart_read_fails_def)
  next
    case (Inr parts)
    with True assms(1) have "read_parts X w parts empty_post = Inl resp"
      by (simp add: parse_request_def)
    from read_parts_Inl [OF this] assms(2) have "list_ex part_fails parts" by auto
    with True Inr show ?thesis by (simp add: multipart_read_fails_def)
  qed
qed

lemma respond_Status:
  "Status (respond X w post mp buf) =
     (if length buf < 2 ^ 20 \<and> \<not> ForceDL post \<and> mp \<and> \<not> isOK (inline_page X buf) then 500 else 200)"
  by (simp add: respond_def Let_def isOK_def split: sum.splits)

text \<open>
  The claim C3 as stated fails for a malformed multipart stream: when \<^verbatim>\<open>NextPart\<close> returns
  an error other than \<^verbatim>\<open>io.EOF\<close>, the answer has status 500.
\<close>

theorem RenderServer_malformed_multipart_counterexample:
  "is_multipart (multipart_request [NextPartError ''multipart: NextPart: EOF''])
   \<and> Status (RenderServer echo_env test_FnMap
                (multipart_request [NextPartError ''multipart: NextPart: EOF''])) = 500"
  by (simp add: RenderServer_def echo_env_def multipart_request_def is_multipart_def
      HasPrefix_def parse_request_def new_response_def http_Error_def)

text \<open>
  Claim C3, amended. For a POST request (whose dump, when requests are dumped, succeeds):
  when the body is not multipart and \<^verbatim>\<open>json.NewDecoder(r.Body).Decode(&post)\<close> returns an
  error, the answer has status 400 and the error in a \<^verbatim>\<open>jresp\<close>; when it returns no
  error, the request is not answered as malformed and goes on to the template with what
  was decoded (the decoder reads the first JSON value of the body only, so it returns no
  error for a body in which other text follows a complete value); a \<^verbatim>\<open>forcedl\<close> part
  whose text does not parse as a boolean is answered with status 400 and the error text;
  an error of the multipart reader or of \<^verbatim>\<open>NextPart\<close>, or a failure to read the content of
  a part, is answered with status 500 and the error text; and a status of 500 or more
  comes only from a failure to read the multipart stream, from a failed execution of the
  template, or from a failure to make the inline page.
\<close>

theorem RenderServer_input_errors:
  assumes "Method r = ''POST''" and "DebugHTTPRequests X \<longrightarrow> isOK (DumpRequest r)"
  shows
   "(\<forall>e. \<not> is_multipart r \<and> Decode_jreq X (Body r) empty_post = Inl e \<longrightarrow>
        RenderServer X fnMap r
          = \<lparr>Status = 400, Header = [],
             Body_written = JsonResp \<lparr>status = 400, Error = LibError e\<rparr>\<rparr>)
    \<and> (\<forall>post. \<not> is_multipart r \<and> Decode_jreq X (Body r) empty_post = Inr post \<longrightarrow>
        RenderServer X fnMap r
          = (case BuildTemplate (text_engine X) (files X) fnMap (EnableUnsafeFunctions X) ''post''
                    (Template post) (range_order X (Templates post)) [] of
               Inl err \<Rightarrow> json_error new_response 400 err
             | Inr (tpl, all) \<Rightarrow>
                 (case Execute (text_engine X) tpl (Data post) of
                    Inl err \<Rightarrow> json_error new_response 500 err
                  | Inr buf \<Rightarrow> respond X new_response post False buf)))
    \<and> (\<forall>pre part rest post err.
          is_multipart r \<and> MultipartReader r = Inr (pre @ NextPart part # rest)
          \<and> read_parts X new_response pre empty_post = Inr post
          \<and> FormName part = ''forcedl'' \<and> snd (content part) = None
          \<and> ParseBool (fst (content part)) = Inl err \<longrightarrow>
          Status (RenderServer X fnMap r) = 400
          \<and> Body_written (RenderServer X fnMap r) = ErrorLine err)
    \<and> (\<forall>e. is_multipart r \<and> MultipartReader r = Inl e \<longrightarrow>
          Status (RenderServer X fnMap r) = 500
          \<and> Body_written (RenderServer X fnMap r) = ErrorLine (LibError e))
    \<and> (\<forall>pre e rest post.
          is_multipart r \<and> MultipartReader r = Inr (pre @ NextPartError e # rest)
          \<and> read_parts X new_response pre empty_post = Inr post \<longrightarrow>
          Status (RenderServer X fnMap r) = 500
          \<and> Body_written (RenderServer X fnMap r) = ErrorLine (LibError e))
    \<and> (\<forall>pre part rest post.
          is_multipart r \<and> MultipartReader r = Inr (pre @ NextPart part # rest)
          \<and> read_parts X new_response pre empty_post = Inr post
          \<and> part_fails (NextPart part) \<longrightarrow>
          Status (RenderServer X fnMap r) = 500
          \<and> Body_written (RenderServer X fnMap r)
              = ErrorLine (ReadError (the (snd (content part)))))
    \<and> (Status (RenderServer X fnMap r) \<ge> 500 \<longrightarrow>
          (is_multipart r \<and> multipart_read_fails r)
          \<or> (\<exists>post tpl all e.
                parse_request X new_response r = Inr post
                \<and> BuildTemplate (text_engine X) (files X) fnMap (EnableUnsafeFunctions X) ''post''
                     (Template post) (range_order X (Templates post)) [] = Inr (tpl, all)
                \<and> (Execute (text_engine X) tpl (Data post) = Inl e
                    \<or> (\<exists>buf. Execute (text_engine X) tpl (Data post) = Inr buf
                          \<and> inline_page X buf = Inl e))))"
proof (intro conjI allI impI)
  fix e
  assume "\<not> is_multipart r \<and> Decode_jreq X (Body r) empty_post = Inl e"
  then show "RenderServer X fnMap r
          = \<lparr>Status = 400, Header = [],
             Body_written = JsonResp \<lparr>status = 400, Error = LibError e\<rparr>\<rparr>"
    by (simp add: RenderServer_POST [OF assms] parse_request_json_error)
next
  fix post
  assume h: "\<not> is_multipart r \<and> Decode_jreq X (Body r) empty_post = Inr post"
  then have "parse_request X new_response r = Inr post"
    by (simp add: parse_request_def)
  with h show "RenderServer X fnMap r
          = (case BuildTemplate (text_engine X) (files X) fnMap (EnableUnsafeFunctions X) ''post''
                    (Template post) (range_order X (Templates post)) [] of
               Inl err \<Rightarrow> json_error new_response 400 err
             | Inr (tpl, all) \<Rightarrow>
                 (case Execute (text_engine X) tpl (Data post) of
                    Inl err \<Rightarrow> json_error new_response 500 err
                  | Inr buf \<Rightarrow> respond X new_response post False buf))"
    by (simp add: RenderServer_POST [OF assms] split: sum.splits prod.splits)
next
  fix pre part rest post err
  assume h: "is_multipart r \<and> MultipartReader r = Inr (pre @ NextPart part # rest)
          \<and> read_parts X new_response pre empty_post = Inr post
          \<and> FormName part = ''forcedl'' \<and> snd (content part) = None
          \<and> ParseBool (fst (content part)) = Inl err"
  then have "parse_request X new_response r = Inl (http_Error new_response (ErrorLine err) 400)"
    using parse_request_forcedl_error [of r pre part rest X new_response post err] by blast
  then show "Status (RenderServer X fnMap r) = 400"
    and "Body_written (RenderServer X fnMap r) = ErrorLine err"
    by (simp_all add: RenderServer_POST [OF assms] http_Error_sel)
next
  fix e
  assume "is_multipart r \<and> MultipartReader r = Inl e"
  then have "parse_request X new_response r
      = Inl (http_Error new_response (ErrorLine (LibError e)) 500)"
    by (simp add: parse_request_reader_error)
  then show "Status (RenderServer X fnMap r) = 500"
    and "Body_written (RenderServer X fnMap r) = ErrorLine (LibError e)"
    by (simp_all add: RenderServer_POST [OF assms] http_Error_sel)
next
  fix pre e rest post
  assume "is_multipart r \<and> MultipartReader r = Inr (pre @ NextPartError e # rest)
          \<and> read_parts X new_response pre empty_post = Inr post"
  then have "parse_request X new_response r
      = Inl (http_Error new_response (ErrorLine (LibError e)) 500)"
    using parse_request_NextPart_error [of r pre e rest X new_response post] by blast
  then show "Status (RenderServer X fnMap r) = 500"
    and "Body_written (RenderServer X fnMap r) = ErrorLine (LibError e)"
    by (simp_all add: RenderServer_POST [OF assms] http_Error_sel)
next
  fix pre part rest post
  assume h: "is_multipart r \<and> MultipartReader r = Inr (pre @ NextPart part # rest)
          \<and> read_parts X new_response pre empty_post = Inr post
          \<and> part_fails (NextPart part)"
  then have "parse_request X new_response r
      = Inl (http_Error new_response (ErrorLine (ReadError (the (snd (content part))))) 500)"
    by (simp add: parse_request_def read_parts_append read_parts_fails)
  then show "Status (RenderServer X fnMap r) = 500"
    and "Body_written (RenderServer X fnMap r) = ErrorLine (ReadError (the (snd (content part))))"
    by (simp_all add: RenderServer_POST [OF assms] http_Error_sel)
next
  assume s: "Status (RenderServer X fnMap r) \<ge> 500"
  show "(is_multipart r \<and> multipart_read_fails r)
          \<or> (\<exists>post tpl all e.
                parse_request X new_response r = Inr post
                \<and> BuildTemplate (text_engine X) (files X) fnMap (EnableUnsafeFunctions X) ''post''
                     (Template post) (range_order X (Templates post)) [] = Inr (tpl, all)
                \<and> (Execute (text_engine X) tpl (Data post) = Inl e
                    \<or> (\<exists>buf. Execute (text_engine X) tpl (Data post) = Inr buf
                          \<and> inline_page X buf = Inl e)))"
  proof (cases "parse_request X new_response r")
    case (Inl resp)
    with s have "Status resp \<ge> 500" by (simp add: RenderServer_POST [OF assms])
    from parse_request_Inl_500 [OF Inl this] show ?thesis by blast
  next
    case (Inr post)
    show ?thesis
    proof (cases "BuildTemplate (text_engine X) (files X) fnMap (EnableUnsafeFunctions X) ''post''
                     (Template post) (range_order X (Templates post)) []")
      case bl: (Inl err)
      with s Inr show ?thesis
        by (simp add: RenderServer_POST [OF assms] json_error_def)
    next
      case br: (Inr ta)
      obtain tpl all where ta: "ta = (tpl, all)" by (cases ta)
      show ?thesis
      proof (cases "Execute (text_engine X) tpl (Data post)")
        case el: (Inl e)
        with Inr br ta show ?thesis by blast
      next
        case er: (Inr buf)
        with s Inr br ta have "Status (respond X new_response post (is_multipart r) buf) \<ge> 500"
          by (simp add: RenderServer_POST [OF assms])
        then have "\<not> isOK (inline_page X buf)"
          by (simp add: respond_Status split: if_splits)
        then obtain e where "inline_page X buf = Inl e"
          by (cases "inline_page X buf") (simp_all add: isOK_def)
        with Inr br ta er show ?thesis by blast
      qed
    qed
  qed
qed

lemma multipart_request_sel:
  "Method (multipart_request parts) = ''POST''"
  "is_multipart (multipart_request parts)"
  "MultipartReader (multipart_request parts) = Inr parts"
  by (simp_all add: multipart_request_def is_multipart_def HasPrefix_def)

lemma json_request_sel:
  "Method (json_request b) = ''POST''"
  "\<not> is_multipart (json_request b)"
  "Body (json_request b) = b"
  by (simp_all add: json_request_def is_multipart_def HasPrefix_def)

lemma echo_env_sel:
  "\<not> DebugHTTPRequests echo_env"
  "Decode_jreq echo_env = template_decoder"
  "text_engine echo_env = echo_engine" "html_engine echo_env = page_engine"
  "files echo_env = no_files" "EnableUnsafeFunctions echo_env = False"
  "range_order echo_env m = m"
  by (simp_all add: echo_env_def)

theorem RenderServer_input_errors_witness:
  "Method (json_request ''{'') = ''POST'' \<and> \<not> DebugHTTPRequests echo_env
   \<and> \<not> is_multipart (json_request ''{'')
   \<and> RenderServer echo_env test_FnMap (json_request ''{'')
       = \<lparr>Status = 400, Header = [],
          Body_written = JsonResp \<lparr>status = 400, Error = LibError ''invalid character''\<rparr>\<rparr>
   \<and> Status (RenderServer echo_env test_FnMap (json_request object_and_braces)) = 200
   \<and> Body_written (RenderServer echo_env test_FnMap (json_request object_and_braces)) = Raw ''A''
   \<and> Status (RenderServer echo_env test_FnMap (multipart_request [form_part ''forcedl'' [] ''yes'']))
       = 400
   \<and> Body_written (RenderServer echo_env test_FnMap (multipart_request [form_part ''forcedl'' [] ''yes'']))
       = ErrorLine (strconv_ErrSyntax ''ParseBool'' ''yes'')
   \<and> Status (RenderServer echo_env test_FnMap
                (multipart_request [NextPartError ''multipart: NextPart: EOF''])) = 500"
proof -
  have d: "DebugHTTPRequests echo_env \<longrightarrow> isOK (DumpRequest r)" for r
    by (simp add: echo_env_sel)
  note j = RenderServer_input_errors [OF json_request_sel(1) d, of "''{''" test_FnMap]
  have jh: "\<not> is_multipart (json_request ''{'')
      \<and> Decode_jreq echo_env (Body (json_request ''{'')) empty_post = Inl ''invalid character''"
    by (simp add: json_request_sel echo_env_sel template_decoder_def HasPrefix_def)
  from j [THEN conjunct1, THEN spec, THEN mp, OF jh]
  have a: "RenderServer echo_env test_FnMap (json_request ''{'')
       = \<lparr>Status = 400, Header = [],
          Body_written = JsonResp \<lparr>status = 400, Error = LibError ''invalid character''\<rparr>\<rparr>" .
  note k = RenderServer_input_errors [OF json_request_sel(1) d, of object_and_braces test_FnMap]
  have kh: "\<not> is_multipart (json_request object_and_braces)
      \<and> Decode_jreq echo_env (Body (json_request object_and_braces)) empty_post
          = Inr (empty_post\<lparr>Template := ''A''\<rparr>)"
    by (simp add: json_request_sel echo_env_sel template_decoder_def object_and_braces_def
        HasPrefix_def DQ_def Let_def)
  from k [THEN conjunct2, THEN conjunct1, THEN spec, THEN mp, OF kh]
  have a2: "Status (RenderServer echo_env test_FnMap (json_request object_and_braces)) = 200
      \<and> Body_written (RenderServer echo_env test_FnMap (json_request object_and_braces)) = Raw ''A''"
    by (simp add: echo_env_sel empty_post_def BuildTemplate_def Let_def Parse_def echo_engine_def
        Funcs_def New_def AddParseTree_def Execute_def Base_def respond_def)
  let ?p = "\<lparr>FormName = ''forcedl'', FileName = [], content = (''yes'', None)\<rparr>"
  let ?r = "multipart_request [form_part ''forcedl'' [] ''yes'']"
  note f = RenderServer_input_errors [OF multipart_request_sel(1) d,
      of "[form_part ''forcedl'' [] ''yes'']" test_FnMap]
  have fh: "is_multipart ?r \<and> MultipartReader ?r = Inr ([] @ NextPart ?p # [])
      \<and> read_parts echo_env new_response [] empty_post = Inr empty_post
      \<and> FormName ?p = ''forcedl'' \<and> snd (content ?p) = None
      \<and> ParseBool (fst (content ?p)) = Inl (strconv_ErrSyntax ''ParseBool'' ''yes'')"
    by (simp add: multipart_request_sel form_part_def ParseBool_def)
  from f [THEN conjunct2, THEN conjunct2, THEN conjunct1,
      THEN spec, THEN spec, THEN spec, THEN spec, THEN spec, THEN mp, OF fh]
  have b: "Status (RenderServer echo_env test_FnMap ?r) = 400
      \<and> Body_written (RenderServer echo_env test_FnMap ?r) = ErrorLine (strconv_ErrSyntax ''ParseBool'' ''yes'')" .
  let ?s = "multipart_request [NextPartError ''multipart: NextPart: EOF'']"
  note n = RenderServer_input_errors [OF multipart_request_sel(1) d,
      of "[NextPartError ''multipart: NextPart: EOF'']" test_FnMap]
  have nh: "is_multipart ?s \<and> MultipartReader ?s = Inr ([] @ NextPartError ''multipart: NextPart: EOF'' # [])
      \<and> read_parts echo_env new_response [] empty_post = Inr empty_post"
    by (simp add: multipart_request_sel)
  from n [THEN conjunct2, THEN conjunct2, THEN conjunct2, THEN conjunct2, THEN conjunct1,
      THEN spec, THEN spec, THEN spec, THEN spec, THEN mp, OF nh]
  have c: "Status (RenderServer echo_env test_FnMap ?s) = 500" by (rule conjunct1)
  show ?thesis
    using a a2 b c json_request_sel(1,2) [of "''{''"] echo_env_sel(1) by simp
qed

subsection \<open>The shape of a successful answer\<close>

lemma respond_inline:
  assumes "length buf < 2 ^ 20 \<and> mp \<and> \<not> ForceDL post" and "inline_page X buf = Inr page"
  shows "respond X new_response post mp buf
     = \<lparr>Status = 200,
        Header = [(''Expires'', ''0''),
                  (''Content-Control'', ''private, no-transform, no-store, must-revalidate'')],
        Body_written = Raw page\<rparr>"
  using assms by (simp add: respond_def Let_def new_response_def)

lemma respond_attachment:
  assumes "\<not> (length buf < 2 ^ 20 \<and> mp \<and> \<not> ForceDL post)"
  shows "Status (respond X new_response post mp buf) = 200"
    and "Body_written (respond X new_response post mp buf) = Raw buf"
    and "map_of (Header (respond X new_response post mp buf)) ''Content-Disposition''
           = Some (''attachment; filename='' @ (if Outfile post = [] then ''rendered.out'' else Outfile post))"
    and "map_of (Header (respond X new_response post mp buf)) ''Content-Length''
           = Some (Itoa_nat (length buf))"
  using assms by (auto simp: respond_def Let_def new_response_def map_of_put)

lemma HasPrefix_simps:
  "HasPrefix s [] = True"
  "HasPrefix [] (p # ps) = False"
  "HasPrefix (c # cs) (p # ps) = (c = p \<and> HasPrefix cs ps)"
  by (auto simp: HasPrefix_def)

lemma fill_action_line:
  "\<not> Contains l ''{{'' \<Longrightarrow> fill_action 0 out (l @ LF # s) = l @ LF # fill_action 0 out s"
proof (induction l)
  case Nil
  then show ?case by (simp add: HasPrefix_simps LF_def)
next
  case (Cons c cs)
  then have n: "\<not> HasPrefix (c # cs) ''{{''" and m: "\<not> Contains cs ''{{''" by simp_all
  from n have "\<not> HasPrefix ((c # cs) @ LF # s) ''{{.Output}}''"
    by (cases cs) (auto simp: HasPrefix_simps LF_def)
  with Cons.IH [OF m] show ?case by simp
qed

lemma fill_action_unlines:
  "list_all (\<lambda>l. \<not> Contains l ''{{'') ls \<Longrightarrow>
     fill_action 0 out (unlines ls @ s) = unlines ls @ fill_action 0 out s"
  by (induction ls) (simp_all add: unlines_def fill_action_line)

lemma htmlHead_no_action:
  "\<exists>ls. htmlHead = LF # unlines ls \<and> list_all (\<lambda>l. \<not> Contains l ''{{'') ls"
  unfolding htmlHead_def
  by (rule exI, rule conjI, simp, simp add: HasPrefix_simps TAB_def DQ_def)

lemma fill_action_htmlHead:
  "fill_action 0 out (htmlHead @ s) = htmlHead @ fill_action 0 out s"
proof -
  from htmlHead_no_action obtain ls where h: "htmlHead = LF # unlines ls"
    and n: "list_all (\<lambda>l. \<not> Contains l ''{{'') ls" by blast
  show ?thesis
    unfolding h using fill_action_unlines [OF n, of out s]
    by (simp add: HasPrefix_simps LF_def)
qed

lemma inline_page_Inr:
  "inline_page X out = Inr page \<longleftrightarrow>
     (\<exists>ptpl names.
        BuildTemplate (html_engine X) (files X) (FnMap (TypeOf X)) False ''rendered''
          (htmlHead @ htmlArticle) [] [] = Inr (ptpl, names)
        \<and> ExecuteTemplate (html_engine X) ptpl ''rendered'' (JObject [(''Output'', JString out)])
            = Inr page)"
  by (auto simp: inline_page_def renderedPage_def split: sum.splits)

text \<open>
  Claim C7. When the template was built and executed with the output \<open>buf\<close> and the answer
  has status 200: if \<open>buf\<close> is shorter than 1 MiB, the request was multipart and
  \<^verbatim>\<open>ForceDL\<close> is false, the body of the answer is the HTML page, that is, what the HTML
  engine writes when the template built from \<^verbatim>\<open>htmlHead + htmlArticle\<close> with the safe
  functions of \<^verbatim>\<open>FnMap\<close> is executed by its name \<^verbatim>\<open>rendered\<close> with \<open>buf\<close> as the field
  \<^verbatim>\<open>Output\<close> of the data; the answer has the two cache headers only, so neither
  \<^verbatim>\<open>Content-Disposition\<close> nor \<^verbatim>\<open>Content-Length\<close>. In every other case the answer carries
  \<^verbatim>\<open>Content-Disposition\<close> with \<^verbatim>\<open>attachment; filename=\<close> and the requested \<^verbatim>\<open>Outfile\<close>
  (\<^verbatim>\<open>rendered.out\<close> when none was given), \<^verbatim>\<open>Content-Length\<close> with the decimal length of
  \<open>buf\<close>, and \<open>buf\<close> as its body.
\<close>

theorem RenderServer_response_shape:
  assumes "Method r = ''POST''" and "DebugHTTPRequests X \<longrightarrow> isOK (DumpRequest r)"
    and "parse_request X new_response r = Inr post"
    and "BuildTemplate (text_engine X) (files X) fnMap (EnableUnsafeFunctions X) ''post''
           (Template post) (range_order X (Templates post)) [] = Inr (tpl, all)"
    and "Execute (text_engine X) tpl (Data post) = Inr buf"
    and "Status (RenderServer X fnMap r) = 200"
  shows
   "(length buf < 2 ^ 20 \<and> is_multipart r \<and> \<not> ForceDL post \<longrightarrow>
       (\<exists>ptpl names page.
          BuildTemplate (html_engine X) (files X) (FnMap (TypeOf X)) False ''rendered''
            (htmlHead @ htmlArticle) [] [] = Inr (ptpl, names)
          \<and> ExecuteTemplate (html_engine X) ptpl ''rendered'' (JObject [(''Output'', JString buf)])
              = Inr page
          \<and> RenderServer X fnMap r
              = \<lparr>Status = 200,
                 Header = [(''Expires'', ''0''),
                           (''Content-Control'', ''private, no-transform, no-store, must-revalidate'')],
                 Body_written = Raw page\<rparr>)
       \<and> map_of (Header (RenderServer X fnMap r)) ''Content-Disposition'' = None
       \<and> map_of (Header (RenderServer X fnMap r)) ''Content-Length'' = None)
    \<and> (\<not> (length buf < 2 ^ 20 \<and> is_multipart r \<and> \<not> ForceDL post) \<longrightarrow>
       map_of (Header (RenderServer X fnMap r)) ''Content-Disposition''
         = Some (''attachment; filename='' @ (if Outfile post = [] then ''rendered.out'' else Outfile post))
       \<and> map_of (Header (RenderServer X fnMap r)) ''Content-Length'' = Some (Itoa_nat (length buf))
       \<and> Body_written (RenderServer X fnMap r) = Raw buf)"
proof -
  have eq: "RenderServer X fnMap r = respond X new_response post (is_multipart r) buf"
    using assms(3,4,5) by (simp add: RenderServer_POST [OF assms(1,2)])
  show ?thesis
  proof (intro conjI impI)
    assume c: "length buf < 2 ^ 20 \<and> is_multipart r \<and> \<not> ForceDL post"
    from assms(6) c have "isOK (inline_page X buf)"
      unfolding eq respond_Status by (simp split: if_splits)
    then obtain page where p: "inline_page X buf = Inr page"
      by (cases "inline_page X buf") (simp_all add: isOK_def)
    note r = respond_inline [OF c p]
    from p obtain ptpl names where
      b: "BuildTemplate (html_engine X) (files X) (FnMap (TypeOf X)) False ''rendered''
            (htmlHead @ htmlArticle) [] [] = Inr (ptpl, names)"
      and e: "ExecuteTemplate (html_engine X) ptpl ''rendered'' (JObject [(''Output'', JString buf)])
            = Inr page"
      unfolding inline_page_Inr by blast
    from b e r show "\<exists>ptpl names page.
          BuildTemplate (html_engine X) (files X) (FnMap (TypeOf X)) False ''rendered''
            (htmlHead @ htmlArticle) [] [] = Inr (ptpl, names)
          \<and> ExecuteTemplate (html_engine X) ptpl ''rendered'' (JObject [(''Output'', JString buf)])
              = Inr page
          \<and> RenderServer X fnMap r
              = \<lparr>Status = 200,
                 Header = [(''Expires'', ''0''),
                           (''Content-Control'', ''private, no-transform, no-store, must-revalidate'')],
                 Body_written = Raw page\<rparr>"
      unfolding eq by blast
    from r show "map_of (Header (RenderServer X fnMap r)) ''Content-Disposition'' = None"
      unfolding eq by simp
    from r show "map_of (Header (RenderServer X fnMap r)) ''Content-Length'' = None"
      unfolding eq by simp
  next
    assume c: "\<not> (length buf < 2 ^ 20 \<and> is_multipart r \<and> \<not> ForceDL post)"
    show "map_of (Header (RenderServer X fnMap r)) ''Content-Disposition''
         = Some (''attachment; filename='' @ (if Outfile post = [] then ''rendered.out'' else Outfile post))"
      unfolding eq by (rule respond_attachment(3) [OF c])
    show "map_of (Header (RenderServer X fnMap r)) ''Content-Length'' = Some (Itoa_nat (length buf))"
      unfolding eq by (rule respond_attachment(4) [OF c])
    show "Body_written (RenderServer X fnMap r) = Raw buf"
      unfolding eq by (rule respond_attachment(2) [OF c])
  qed
qed

lemma echo_build_inline:
  "\<exists>tpl all. BuildTemplate echo_engine no_files fm False ''post'' ''A'' [] [] = Inr (tpl, all)
      \<and> Execute echo_engine tpl JNull = Inr ''A''"
  by (simp add: BuildTemplate_def Let_def Parse_def echo_engine_def Funcs_def New_def
      AddParseTree_def Execute_def Base_def)

lemma echo_parse_forcedl:
  "parse_request echo_env new_response
      (multipart_request [form_part ''template'' [] ''A'', form_part ''forcedl'' [] ''true''])
     = Inr (empty_post\<lparr>Template := ''A'', ForceDL := True\<rparr>)"
  by (simp add: parse_request_def multipart_request_sel form_part_def read_parts.simps Let_def
      ParseBool_def)

lemma page_build_inline:
  "\<exists>ptpl names.
      BuildTemplate page_engine no_files fm False ''rendered'' (htmlHead @ htmlArticle) [] []
        = Inr (ptpl, names)
      \<and> ExecuteTemplate page_engine ptpl ''rendered'' (JObject [(''Output'', JString ''a<b'')])
          = Inr (htmlHead @ [LF]
                 @ ''<div class='' @ [DQ] @ ''container'' @ [DQ] @ ''>'' @ [LF]
                 @ ''<article class='' @ [DQ] @ ''all-browsers'' @ [DQ] @ ''>'' @ [LF]
                 @ ''<pre style='' @ [DQ] @ ''max-height: 25em; overflow: scroll;'' @ [DQ]
                 @ ''><code class='' @ [DQ] @ ''codeblock'' @ [DQ] @ ''>a&lt;b</code></pre>'' @ [LF]
                 @ ''</article>'' @ [LF] @ ''</div>'' @ [LF] @ ''</body>'' @ [LF] @ ''</html>'')"
proof -
  have n: "htmlHead @ htmlArticle \<noteq> []" by (simp add: htmlArticle_def)
  have f: "fill_action 0 ''a&lt;b'' htmlArticle
      = [LF]
                 @ ''<div class='' @ [DQ] @ ''container'' @ [DQ] @ ''>'' @ [LF]
                 @ ''<article class='' @ [DQ] @ ''all-browsers'' @ [DQ] @ ''>'' @ [LF]
                 @ ''<pre style='' @ [DQ] @ ''max-height: 25em; overflow: scroll;'' @ [DQ]
                 @ ''><code class='' @ [DQ] @ ''codeblock'' @ [DQ] @ ''>a&lt;b</code></pre>'' @ [LF]
                 @ ''</article>'' @ [LF] @ ''</div>'' @ [LF] @ ''</body>'' @ [LF] @ ''</html>''"
    by (simp add: htmlArticle_def unlines_def HasPrefix_simps LF_def DQ_def)
  have e: "concat (map escape_char (field_Output (JObject [(''Output'', JString ''a<b'')]))) = ''a&lt;b''"
    by (simp add: field_Output_def DQ_def)
  show ?thesis
    using n
    by (simp add: BuildTemplate_def Let_def Parse_def page_engine_def Funcs_def New_def
        AddParseTree_def ExecuteTemplate_def Base_def e fill_action_htmlHead f
        del: escape_char.simps fill_action.simps)
qed

lemma echo_build_text:
  "\<exists>tpl all. BuildTemplate echo_engine no_files fm False ''post'' ''a<b'' [] [] = Inr (tpl, all)
      \<and> Execute echo_engine tpl JNull = Inr ''a<b''"
  by (simp add: BuildTemplate_def Let_def Parse_def echo_engine_def Funcs_def New_def
      AddParseTree_def Execute_def Base_def)

lemma echo_parse_inline:
  "parse_request echo_env new_response (multipart_request [form_part ''template'' [] ''a<b''])
     = Inr (empty_post\<lparr>Template := ''a<b''\<rparr>)"
  by (simp add: parse_request_def multipart_request_sel form_part_def read_parts.simps Let_def)

theorem RenderServer_response_shape_witness:
  "RenderServer echo_env test_FnMap (multipart_request [form_part ''template'' [] ''a<b''])
     = \<lparr>Status = 200,
        Header = [(''Expires'', ''0''),
                  (''Content-Control'', ''private, no-transform, no-store, must-revalidate'')],
        Body_written =
          Raw (htmlHead @ [LF]
               @ ''<div class='' @ [DQ] @ ''container'' @ [DQ] @ ''>'' @ [LF]
               @ ''<article class='' @ [DQ] @ ''all-browsers'' @ [DQ] @ ''>'' @ [LF]
               @ ''<pre style='' @ [DQ] @ ''max-height: 25em; overflow: scroll;'' @ [DQ]
               @ ''><code class='' @ [DQ] @ ''codeblock'' @ [DQ] @ ''>a&lt;b</code></pre>'' @ [LF]
               @ ''</article>'' @ [LF] @ ''</div>'' @ [LF] @ ''</body>'' @ [LF] @ ''</html>'')\<rparr>
   \<and> Status (RenderServer echo_env test_FnMap
      (multipart_request [form_part ''template'' [] ''A'', form_part ''forcedl'' [] ''true''])) = 200
   \<and> map_of (Header (RenderServer echo_env test_FnMap
        (multipart_request [form_part ''template'' [] ''A'', form_part ''forcedl'' [] ''true''])))
        ''Content-Disposition'' = Some ''attachment; filename=rendered.out''
   \<and> map_of (Header (RenderServer echo_env test_FnMap
        (multipart_request [form_part ''template'' [] ''A'', form_part ''forcedl'' [] ''true''])))
        ''Content-Length'' = Some ''1''
   \<and> Body_written (RenderServer echo_env test_FnMap
        (multipart_request [form_part ''template'' [] ''A'', form_part ''forcedl'' [] ''true'']))
       = Raw ''A''"
proof -
  let ?q = "multipart_request [form_part ''template'' [] ''a<b'']"
  let ?qpost = "empty_post\<lparr>Template := ''a<b''\<rparr>"
  let ?page = "htmlHead @ [LF]
               @ ''<div class='' @ [DQ] @ ''container'' @ [DQ] @ ''>'' @ [LF]
               @ ''<article class='' @ [DQ] @ ''all-browsers'' @ [DQ] @ ''>'' @ [LF]
               @ ''<pre style='' @ [DQ] @ ''max-height: 25em; overflow: scroll;'' @ [DQ]
               @ ''><code class='' @ [DQ] @ ''codeblock'' @ [DQ] @ ''>a&lt;b</code></pre>'' @ [LF]
               @ ''</article>'' @ [LF] @ ''</div>'' @ [LF] @ ''</body>'' @ [LF] @ ''</html>''"
  have qd: "DebugHTTPRequests echo_env \<longrightarrow> isOK (DumpRequest ?q)"
    by (simp add: echo_env_sel)
  from echo_build_text [of test_FnMap] obtain qtpl qall where
    qb: "BuildTemplate echo_engine no_files test_FnMap False ''post'' ''a<b'' [] [] = Inr (qtpl, qall)"
    and qe: "Execute echo_engine qtpl JNull = Inr ''a<b''"
    by blast
  have qb': "BuildTemplate (text_engine echo_env) (files echo_env) test_FnMap
      (EnableUnsafeFunctions echo_env) ''post'' (Template ?qpost)
      (range_order echo_env (Templates ?qpost)) [] = Inr (qtpl, qall)"
    using qb by (simp add: echo_env_sel empty_post_def)
  have qe': "Execute (text_engine echo_env) qtpl (Data ?qpost) = Inr ''a<b''"
    using qe by (simp add: echo_env_sel empty_post_def)
  from page_build_inline [of "FnMap (TypeOf echo_env)"] obtain ptpl0 names0 where
    pb: "BuildTemplate (html_engine echo_env) (files echo_env) (FnMap (TypeOf echo_env)) False
           ''rendered'' (htmlHead @ htmlArticle) [] [] = Inr (ptpl0, names0)"
    and pe: "ExecuteTemplate (html_engine echo_env) ptpl0 ''rendered''
               (JObject [(''Output'', JString ''a<b'')]) = Inr ?page"
    unfolding echo_env_sel by blast
  from pb pe have ip: "inline_page echo_env ''a<b'' = Inr ?page"
    unfolding inline_page_Inr by blast
  have qs: "Status (RenderServer echo_env test_FnMap ?q) = 200"
    using echo_parse_inline qb' qe' ip
    by (simp add: RenderServer_POST [OF multipart_request_sel(1) qd] respond_Status isOK_def)
  note qth = RenderServer_response_shape [OF multipart_request_sel(1) qd echo_parse_inline qb' qe' qs]
  have qc: "length ''a<b'' < 2 ^ 20 \<and> is_multipart ?q \<and> \<not> ForceDL ?qpost"
    by (simp add: multipart_request_sel empty_post_def)
  from qth [THEN conjunct1, THEN mp, OF qc, THEN conjunct1] obtain ptpl names page where
    pb1: "BuildTemplate (html_engine echo_env) (files echo_env) (FnMap (TypeOf echo_env)) False
           ''rendered'' (htmlHead @ htmlArticle) [] [] = Inr (ptpl, names)"
    and pe1: "ExecuteTemplate (html_engine echo_env) ptpl ''rendered''
               (JObject [(''Output'', JString ''a<b'')]) = Inr page"
    and resp: "RenderServer echo_env test_FnMap ?q
              = \<lparr>Status = 200,
                 Header = [(''Expires'', ''0''),
                           (''Content-Control'', ''private, no-transform, no-store, must-revalidate'')],
                 Body_written = Raw page\<rparr>"
    by blast
  from pb pb1 have "ptpl = ptpl0" by simp
  with pe pe1 have "page = ?page" by simp
  with resp have inline: "RenderServer echo_env test_FnMap ?q
              = \<lparr>Status = 200,
                 Header = [(''Expires'', ''0''),
                           (''Content-Control'', ''private, no-transform, no-store, must-revalidate'')],
                 Body_written = Raw ?page\<rparr>"
    by simp
  let ?r = "multipart_request [form_part ''template'' [] ''A'', form_part ''forcedl'' [] ''true'']"
  let ?post = "empty_post\<lparr>Template := ''A'', ForceDL := True\<rparr>"
  have d: "DebugHTTPRequests echo_env \<longrightarrow> isOK (DumpRequest ?r)"
    by (simp add: echo_env_sel)
  from echo_build_inline [of test_FnMap] obtain tpl all where
    b: "BuildTemplate echo_engine no_files test_FnMap False ''post'' ''A'' [] [] = Inr (tpl, all)"
    and e: "Execute echo_engine tpl JNull = Inr ''A''"
    by blast
  have b': "BuildTemplate (text_engine echo_env) (files echo_env) test_FnMap
      (EnableUnsafeFunctions echo_env) ''post'' (Template ?post)
      (range_order echo_env (Templates ?post)) [] = Inr (tpl, all)"
    using b by (simp add: echo_env_sel empty_post_def)
  have e': "Execute (text_engine echo_env) tpl (Data ?post) = Inr ''A''"
    using e by (simp add: echo_env_sel empty_post_def)
  have s: "Status (RenderServer echo_env test_FnMap ?r) = 200"
    using echo_parse_forcedl b' e'
    by (simp add: RenderServer_POST [OF multipart_request_sel(1) d] respond_Status)
  note th = RenderServer_response_shape [OF multipart_request_sel(1) d echo_parse_forcedl b' e' s]
  have c: "\<not> (length ''A'' < 2 ^ 20 \<and> is_multipart ?r \<and> \<not> ForceDL ?post)"
    by simp
  from th [THEN conjunct2, THEN mp, OF c] s
  have att: "Status (RenderServer echo_env test_FnMap ?r) = 200
   \<and> map_of (Header (RenderServer echo_env test_FnMap ?r)) ''Content-Disposition''
       = Some ''attachment; filename=rendered.out''
   \<and> map_of (Header (RenderServer echo_env test_FnMap ?r)) ''Content-Length'' = Some ''1''
   \<and> Body_written (RenderServer echo_env test_FnMap ?r) = Raw ''A''"
    by (simp add: empty_post_def Itoa_nat.simps char_of_def bit_Suc_0_iff)
  from inline att show ?thesis by (rule conjI)
qed

subsection \<open>Which template the render path executes\<close>

lemma echo_build_fragment:
  "\<exists>tpl. BuildTemplate echo_engine no_files fm False ''post'' ''A'' [(''frag'', ''B'')] []
            = Inr (tpl, [''post'', ''frag''])
      \<and> name tpl = ''frag'' \<and> Execute echo_engine tpl d = Inr ''B''
      \<and> ExecuteTemplate echo_engine tpl ''post'' d = Inr ''A''"
  by (simp add: BuildTemplate_def Let_def Parse_def echo_engine_def Funcs_def New_def New_assoc_def
      AddParseTree_def Execute_def ExecuteTemplate_def Base_def)

lemma echo_parse_fragment:
  "parse_request echo_env new_response fragment_request
     = Inr (empty_post\<lparr>Template := ''A'', Templates := [(''frag'', ''B'')], ForceDL := True\<rparr>)"
  by (simp add: parse_request_def fragment_request_def multipart_request_sel form_part_def
      read_parts.simps Let_def ParseBool_def empty_post_def)

text \<open>
  Claim C2 says that a supplied inline template is the one the render path executes, also
  when named fragments are registered with it. The code executes the handle that
  \<^verbatim>\<open>BuildTemplate\<close> returns, and that is the handle of the last \<^verbatim>\<open>tpl.New(name).Parse\<close>:
  with the inline template \<^verbatim>\<open>A\<close> and one fragment \<^verbatim>\<open>frag\<close> of content \<^verbatim>\<open>B\<close>, the name
  list is \<^verbatim>\<open>[post, frag]\<close>, its first element the inline name, and the handle returned is
  \<^verbatim>\<open>frag\<close>. With the echo engine, whose output is the text of the template executed, the
  answer to the request is \<^verbatim>\<open>B\<close>, not \<^verbatim>\<open>A\<close>.
\<close>

theorem RenderServer_executes_last_fragment:
  "Body_written (RenderServer echo_env test_FnMap fragment_request) = Raw ''B''
   \<and> map_sum id snd (BuildTemplate echo_engine no_files test_FnMap False ''post'' ''A''
                        [(''frag'', ''B'')] []) = Inr [''post'', ''frag'']"
proof -
  let ?post = "empty_post\<lparr>Template := ''A'', Templates := [(''frag'', ''B'')], ForceDL := True\<rparr>"
  have m: "Method fragment_request = ''POST''"
    by (simp add: fragment_request_def multipart_request_sel)
  have d: "DebugHTTPRequests echo_env \<longrightarrow> isOK (DumpRequest fragment_request)"
    by (simp add: echo_env_sel)
  from echo_build_fragment [of test_FnMap JNull] obtain tpl where
    b: "BuildTemplate echo_engine no_files test_FnMap False ''post'' ''A'' [(''frag'', ''B'')] []
          = Inr (tpl, [''post'', ''frag''])"
    and e: "Execute echo_engine tpl JNull = Inr ''B''"
    by blast
  have r: "RenderServer echo_env test_FnMap fragment_request
      = respond echo_env new_response ?post (is_multipart fragment_request) ''B''"
    using b e
    by (simp add: RenderServer_POST [OF m d] echo_parse_fragment echo_env_sel empty_post_def)
  have c: "\<not> (length ''B'' < 2 ^ 20 \<and> is_multipart fragment_request \<and> \<not> ForceDL ?post)"
    by simp
  from respond_attachment(2) [OF c, of echo_env] r b show ?thesis by simp
qed

end
